theory Spec2Isabelle
  imports Main "HOL-Library.Sublist" "HOL-Library.Word"
begin

section \<open>The BIOS UUID codec of \<open>vsphere_util.go\<close>\<close>

text \<open>
  Go strings are byte sequences, and \<open>len\<close> counts bytes: a Go string is a \<open>string\<close>
  (a list of 8-bit characters) here, and \<open>length\<close> is Go's \<open>len\<close>.
\<close>

subsection \<open>The functions of Go's \<open>strings\<close> package that \<open>getvmUUID\<close> calls\<close>

text \<open>
  \<open>strings.TrimSpace\<close> removes leading and trailing white space as Unicode defines it.
  On the UTF-8 bytes of a string these are the encodings of U+0009 to U+000D, U+0020, U+0085,
  U+00A0, U+1680, U+2000 to U+200A, U+2028, U+2029, U+202F, U+205F and U+3000.
\<close>

definition spaceRunes :: "string list" where
  "spaceRunes =
     [[CHR 0x09], [CHR 0x0A], [CHR 0x0B], [CHR 0x0C], [CHR 0x0D], [CHR 0x20],
      [CHR 0xC2, CHR 0x85], [CHR 0xC2, CHR 0xA0],
      [CHR 0xE1, CHR 0x9A, CHR 0x80],
      [CHR 0xE2, CHR 0x80, CHR 0x80], [CHR 0xE2, CHR 0x80, CHR 0x81],
      [CHR 0xE2, CHR 0x80, CHR 0x82], [CHR 0xE2, CHR 0x80, CHR 0x83],
      [CHR 0xE2, CHR 0x80, CHR 0x84], [CHR 0xE2, CHR 0x80, CHR 0x85],
      [CHR 0xE2, CHR 0x80, CHR 0x86], [CHR 0xE2, CHR 0x80, CHR 0x87],
      [CHR 0xE2, CHR 0x80, CHR 0x88], [CHR 0xE2, CHR 0x80, CHR 0x89],
      [CHR 0xE2, CHR 0x80, CHR 0x8A],
      [CHR 0xE2, CHR 0x80, CHR 0xA8], [CHR 0xE2, CHR 0x80, CHR 0xA9],
      [CHR 0xE2, CHR 0x80, CHR 0xAF], [CHR 0xE2, CHR 0x81, CHR 0x9F],
      [CHR 0xE3, CHR 0x80, CHR 0x80]]"

text \<open>The first white-space encoding that the string starts with, if there is one.\<close>

definition leadingSpace :: "string list \<Rightarrow> string \<Rightarrow> string option" where
  "leadingSpace runes s = find (\<lambda>q. q \<noteq> [] \<and> prefix q s) runes"

function TrimLeftRunes :: "string list \<Rightarrow> string \<Rightarrow> string" where
  "TrimLeftRunes runes s =
     (case leadingSpace runes s of
        None \<Rightarrow> s
      | Some q \<Rightarrow> TrimLeftRunes runes (drop (length q) s))"
  by pat_completeness auto
termination
proof (relation "measure (\<lambda>(runes, s). length s)")
  show "wf (measure (\<lambda>(runes, s). length s))"
    by simp
next
  fix runes :: "string list" and s q :: string
  assume "leadingSpace runes s = Some q"
  then have "q \<noteq> []" and "prefix q s"
    by (auto simp: leadingSpace_def find_Some_iff)
  then have "s \<noteq> []" and "0 < length q"
    by auto
  then show "((runes, drop (length q) s), (runes, s)) \<in> measure (\<lambda>(runes, s). length s)"
    by simp
qed

declare TrimLeftRunes.simps [simp del]

text \<open>
  Trailing white space is leading white space of the reversed string, with every encoding
  reversed.
\<close>

definition TrimSpace :: "string \<Rightarrow> string" where
  "TrimSpace s = rev (TrimLeftRunes (map rev spaceRunes) (rev (TrimLeftRunes spaceRunes s)))"

definition HasPrefix :: "string \<Rightarrow> string \<Rightarrow> bool" where
  "HasPrefix s pre = prefix pre s"

text \<open>\<open>strings.Replace(s, old, "", -1)\<close> for a one-byte \<open>old\<close>: every occurrence is removed.\<close>

definition RemoveAll :: "string \<Rightarrow> char \<Rightarrow> string" where
  "RemoveAll s old = filter (\<lambda>c. c \<noteq> old) s"

text \<open>The Go slice expression \<open>s[i:j]\<close>, for \<open>i \<le> j \<le> len(s)\<close>.\<close>

definition slice :: "string \<Rightarrow> nat \<Rightarrow> nat \<Rightarrow> string" where
  "slice s i j = take (j - i) (drop i s)"

subsection \<open>\<open>getvmUUID\<close>\<close>

text \<open>
  The three errors of \<open>getvmUUID\<close>, each built by \<open>fmt.Errorf\<close>; the argument is the text the
  message carries (the read error, or the file's contents).
\<close>

datatype uuid_error =
    ErrorRetrievingVMUUID string
  | FailedToMatchPrefix string
  | LengthCheckFailed string

text \<open>
  The two errors that reject the identifier itself (the spec's \<open>MalformedIdentifier\<close>).
\<close>

fun MalformedIdentifier :: "uuid_error \<Rightarrow> bool" where
  "MalformedIdentifier (FailedToMatchPrefix _) = True"
| "MalformedIdentifier (LengthCheckFailed _) = True"
| "MalformedIdentifier (ErrorRetrievingVMUUID _) = False"

text \<open>
  The identifier after trimming, with the prefix, the spaces and the hyphens removed
  (lines 92 and 93 of the source).
\<close>

definition payload :: "string \<Rightarrow> string \<Rightarrow> string" where
  "payload UUIDPrefix uuid =
     RemoveAll (RemoveAll (slice uuid (length UUIDPrefix) (length uuid)) CHR '' '') CHR ''-''"

definition dashed :: "string \<Rightarrow> string" where
  "dashed uuid =
     slice uuid 0 8 @ ''-'' @ slice uuid 8 12 @ ''-'' @ slice uuid 12 16 @ ''-'' @
     slice uuid 16 20 @ ''-'' @ slice uuid 20 32"

text \<open>
  \<open>getvmUUID\<close> reads the file at \<open>UUIDPath\<close>. The constant \<open>UUIDPrefix\<close> is declared outside
  the source files at hand and is a parameter; the outcome of \<open>ioutil.ReadFile\<close> is the
  second argument (\<open>Inl\<close> the read error, \<open>Inr\<close> the contents).
\<close>

definition getvmUUID :: "string \<Rightarrow> string + string \<Rightarrow> uuid_error + string" where
  "getvmUUID UUIDPrefix readFile =
     (case readFile of
        Inl err \<Rightarrow> Inl (ErrorRetrievingVMUUID err)
      | Inr uuidFromFile \<Rightarrow>
          (let uuid = TrimSpace uuidFromFile in
           if \<not> HasPrefix uuid UUIDPrefix then Inl (FailedToMatchPrefix uuidFromFile)
           else
             (let uuid = payload UUIDPrefix uuid in
              if length uuid \<noteq> 32 then Inl (LengthCheckFailed uuidFromFile)
              else Inr (dashed uuid))))"

text \<open>Hexadecimal digits, and the canonical form \<open>XXXXXXXX-XXXX-XXXX-XXXX-XXXXXXXXXXXX\<close>.\<close>

definition isHex :: "char \<Rightarrow> bool" where
  "isHex c = (c \<in> set ''0123456789abcdefABCDEF'')"

definition canonicalUUID :: "string \<Rightarrow> bool" where
  "canonicalUUID u =
     (length u = 36 \<and>
      list_all isHex (slice u 0 8) \<and> u ! 8 = CHR ''-'' \<and>
      list_all isHex (slice u 9 13) \<and> u ! 13 = CHR ''-'' \<and>
      list_all isHex (slice u 14 18) \<and> u ! 18 = CHR ''-'' \<and>
      list_all isHex (slice u 19 23) \<and> u ! 23 = CHR ''-'' \<and>
      list_all isHex (slice u 24 36))"

section \<open>The virtual machine of package \<open>vclib\<close>\<close>

subsection \<open>Devices\<close>

text \<open>
  A device of the VM's hardware list (\<open>types.BaseVirtualDevice\<close>): the name of its concrete
  Go type, the fields of the embedded \<open>types.VirtualDevice\<close> that the source reads, and, for
  a device that is a \<open>types.BaseVirtualSCSIController\<close>, the two controller fields that the
  source writes. \<open>Key\<close> and \<open>ControllerKey\<close> are \<open>int32\<close>.
\<close>

datatype VirtualSCSISharing =
    VirtualSCSISharingUnset  \<comment> \<open>the zero value, the empty string\<close>
  | VirtualSCSISharingNoSharing
  | VirtualSCSISharingPhysicalSharing
  | VirtualSCSISharingVirtualSharing

datatype BackingInfo =
    VirtualDiskFlatVer2BackingInfo (FileName: string) (Uuid: string)
  | OtherBackingInfo

record VirtualSCSIController =
  HotAddRemove :: "bool option"
  SharedBus :: VirtualSCSISharing

record device =
  TypeName :: string
  Key :: "32 word"
  ControllerKey :: "32 word"
  Backing :: BackingInfo
  SCSI :: "VirtualSCSIController option"

text \<open>
  \<open>vmDevices.SelectByType(d)\<close> keeps the devices whose concrete type is that of \<open>d\<close>.
\<close>

definition SelectByType :: "device list \<Rightarrow> device \<Rightarrow> device list" where
  "SelectByType vmDevices d = filter (\<lambda>device. TypeName device = TypeName d) vmDevices"

subsection \<open>Requests to the vSphere client\<close>

datatype VirtualDeviceConfigSpecOperation =
    VirtualDeviceConfigSpecOperationAdd
  | VirtualDeviceConfigSpecOperationRemove
  | VirtualDeviceConfigSpecOperationEdit

text \<open>\<open>Profile\<close> holds the \<open>ProfileId\<close> of each \<open>VirtualMachineDefinedProfileSpec\<close>.\<close>

record VirtualDeviceConfigSpec =
  Device :: device
  Operation :: VirtualDeviceConfigSpecOperation
  Profile :: "string list"

record VirtualMachineConfigSpec =
  DeviceChange :: "VirtualDeviceConfigSpec list"

text \<open>
  The fields of \<open>vclib.VolumeOptions\<close> that the source files read or write (the struct is
  declared outside them).
\<close>

record VolumeOptions =
  DiskFormat :: string
  StoragePolicyName :: string
  StoragePolicyID :: string
  VSANStorageProfileData :: string
  SCSIControllerType :: string

text \<open>
  Every call that leaves the package: the requests to vCenter through govmomi, and the calls
  of govmomi's device-list library. A task is named by a number.
\<close>

datatype call =
    CallDevice
  | CallQueryVirtualDiskUuid string
  | CallReconfigure VirtualMachineConfigSpec
  | CallWait nat
  | CallAddDevice device
  | CallRemoveDevice device
  | CallCreateSCSIController string

fun isReconfigure :: "call \<Rightarrow> bool" where
  "isReconfigure (CallReconfigure _) = True"
| "isReconfigure _ = False"

fun isAddDevice :: "call \<Rightarrow> bool" where
  "isAddDevice (CallAddDevice _) = True"
| "isAddDevice _ = False"

text \<open>
  The errors. \<open>RemoteError\<close> wraps whatever the client returns; the three \<open>Err\<close> values are
  the package's sentinel errors; the others are built by \<open>fmt.Errorf\<close> at the line given,
  or are a run-time panic.
\<close>

datatype error =
    RemoteError string
  | ErrNoDevicesFound
  | ErrNoDiskUUIDFound
  | ErrNoDiskIDFound
  | NotAValidSCSIControllerType string  \<comment> \<open>line 136, with the valid options\<close>
  | DeviceNotFound string  \<comment> \<open>line 237\<close>
  | NilControllerDevice  \<comment> \<open>line 269\<close>
  | SCSIControllerLimitReached nat  \<comment> \<open>line 327\<close>
  | PanicInterfaceConversion  \<comment> \<open>the type assertion of line 334\<close>

text \<open>
  The state: the world behind the client, of any type \<open>'w\<close>, and the calls made so far,
  oldest first.
\<close>

record 'w state =
  world :: 'w
  trace :: "call list"

text \<open>
  The client and what the package declares outside the source files. The behaviour of
  vCenter and of govmomi is a parameter: each request maps the world to its answer and the
  next world, and may fail with a message. The constant \<open>SCSIControllerLimit\<close> and the
  helper functions \<open>CheckControllerSupported\<close>, \<open>SCSIControllerTypeValidOptions\<close>,
  \<open>getSCSIControllers\<close> and \<open>formatVirtualDiskUUID\<close> are declared outside the source
  files; they are parameters too, so that what is proved holds whatever they are.
\<close>

record 'w client =
  SCSIControllerLimit :: nat
  CheckControllerSupported :: "string \<Rightarrow> bool"
  SCSIControllerTypeValidOptions :: string
  getSCSIControllers :: "device list \<Rightarrow> device list"
  formatVirtualDiskUUID :: "string \<Rightarrow> string"
  remote_Device :: "'w \<Rightarrow> (string + device list) \<times> 'w"
  remote_QueryVirtualDiskUuid :: "string \<Rightarrow> 'w \<Rightarrow> (string + string) \<times> 'w"
  remote_Reconfigure :: "VirtualMachineConfigSpec \<Rightarrow> 'w \<Rightarrow> (string + nat) \<times> 'w"
  remote_Wait :: "nat \<Rightarrow> 'w \<Rightarrow> string option \<times> 'w"
  remote_AddDevice :: "device \<Rightarrow> 'w \<Rightarrow> string option \<times> 'w"
  remote_RemoveDevice :: "device \<Rightarrow> 'w \<Rightarrow> string option \<times> 'w"
  lib_CreateSCSIController :: "device list \<Rightarrow> string \<Rightarrow> string + device"
  lib_Name :: "device list \<Rightarrow> device \<Rightarrow> string"

text \<open>A request that returns a value and an error, and one that returns an error only.\<close>

definition request ::
  "call \<Rightarrow> ('w \<Rightarrow> (string + 'a) \<times> 'w) \<Rightarrow> 'w state \<Rightarrow> (error + 'a) \<times> 'w state" where
  "request c f s =
     (case f (world s) of
        (Inl msg, w) \<Rightarrow> (Inl (RemoteError msg), \<lparr>world = w, trace = trace s @ [c]\<rparr>)
      | (Inr v, w) \<Rightarrow> (Inr v, \<lparr>world = w, trace = trace s @ [c]\<rparr>))"

definition command ::
  "call \<Rightarrow> ('w \<Rightarrow> string option \<times> 'w) \<Rightarrow> 'w state \<Rightarrow> error option \<times> 'w state" where
  "command c f s =
     (case f (world s) of
        (Some msg, w) \<Rightarrow> (Some (RemoteError msg), \<lparr>world = w, trace = trace s @ [c]\<rparr>)
      | (None, w) \<Rightarrow> (None, \<lparr>world = w, trace = trace s @ [c]\<rparr>))"

definition vm_Device :: "'w client \<Rightarrow> 'w state \<Rightarrow> (error + device list) \<times> 'w state" where
  "vm_Device cl s = request CallDevice (remote_Device cl) s"

definition vdm_QueryVirtualDiskUuid ::
  "'w client \<Rightarrow> string \<Rightarrow> 'w state \<Rightarrow> (error + string) \<times> 'w state" where
  "vdm_QueryVirtualDiskUuid cl diskPath s =
     request (CallQueryVirtualDiskUuid diskPath) (remote_QueryVirtualDiskUuid cl diskPath) s"

definition vm_Reconfigure ::
  "'w client \<Rightarrow> VirtualMachineConfigSpec \<Rightarrow> 'w state \<Rightarrow> (error + nat) \<times> 'w state" where
  "vm_Reconfigure cl spec s = request (CallReconfigure spec) (remote_Reconfigure cl spec) s"

definition task_Wait :: "'w client \<Rightarrow> nat \<Rightarrow> 'w state \<Rightarrow> error option \<times> 'w state" where
  "task_Wait cl task s = command (CallWait task) (remote_Wait cl task) s"

definition vm_AddDevice :: "'w client \<Rightarrow> device \<Rightarrow> 'w state \<Rightarrow> error option \<times> 'w state" where
  "vm_AddDevice cl d s = command (CallAddDevice d) (remote_AddDevice cl d) s"

definition vm_RemoveDevice ::
  "'w client \<Rightarrow> device \<Rightarrow> 'w state \<Rightarrow> error option \<times> 'w state" where
  "vm_RemoveDevice cl d s = command (CallRemoveDevice d) (remote_RemoveDevice cl d) s"

text \<open>
  \<open>vmDevices.CreateSCSIController\<close> is computed by govmomi from the device list, without a
  request to vCenter; the call is recorded all the same.
\<close>

definition vmDevices_CreateSCSIController ::
  "'w client \<Rightarrow> device list \<Rightarrow> string \<Rightarrow> 'w state \<Rightarrow> (error + device) \<times> 'w state" where
  "vmDevices_CreateSCSIController cl vmDevices name s =
     request (CallCreateSCSIController name)
       (\<lambda>w. (lib_CreateSCSIController cl vmDevices name, w)) s"

text \<open>\<open>vmDevices.Find(name)\<close>: the first device of that name, or nil.\<close>

definition vmDevices_Find :: "'w client \<Rightarrow> device list \<Rightarrow> string \<Rightarrow> device option" where
  "vmDevices_Find cl vmDevices name = find (\<lambda>device. lib_Name cl vmDevices device = name) vmDevices"

text \<open>
  \<open>filepath.Ext\<close>: the suffix that starts at the last dot of the last element of the path,
  empty when that element has no dot; the separator is the slash. \<open>ExtFrom\<close> walks the
  path backwards, as the library's loop does, with the bytes passed so far.
\<close>

fun ExtFrom :: "string \<Rightarrow> string \<Rightarrow> string" where
  "ExtFrom [] seen = []"
| "ExtFrom (c # cs) seen =
     (if c = CHR ''/'' then []
      else if c = CHR ''.'' then c # seen
      else ExtFrom cs (c # seen))"

definition Ext :: "string \<Rightarrow> string" where
  "Ext path = ExtFrom (rev path) []"

subsection \<open>Looking up an attached disk\<close>

text \<open>
  Every operation takes the state and returns its result with the next state. A Go function
  that returns \<open>(v, error)\<close> returns \<open>Inl\<close> the error or \<open>Inr v\<close>; one that returns \<open>error\<close>
  alone returns \<open>Some\<close> the error, or \<open>None\<close> for nil. The receiver \<open>vm\<close> wraps a non-nil
  \<open>*object.VirtualMachine\<close>: \<open>AttachDisk\<close> and \<open>createAndAttachSCSIController\<close> call
  through it before they can reach \<open>DeleteController\<close>, whose check of line 271 therefore
  never fires there and is left out.
\<close>

text \<open>Lines 44 to 46: the path with the extension \<open>.vmdk\<close> added when it is missing.\<close>

definition vmdkPath :: "string \<Rightarrow> string" where
  "vmdkPath diskPath =
     (if length diskPath > 0 \<and> Ext diskPath \<noteq> ''.vmdk'' then diskPath @ ''.vmdk''
      else diskPath)"

definition GetVirtualDiskUUIDByPath ::
  "'w client \<Rightarrow> string \<Rightarrow> 'w state \<Rightarrow> (error + string) \<times> 'w state" where
  "GetVirtualDiskUUIDByPath cl diskPath s =
     (let diskPath = vmdkPath diskPath
      in case vdm_QueryVirtualDiskUuid cl diskPath s of
           (Inl err, s1) \<Rightarrow> (Inl ErrNoDiskUUIDFound, s1)
         | (Inr diskUUID, s1) \<Rightarrow> (Inr (formatVirtualDiskUUID cl diskUUID), s1))"

definition getVirtualDiskUUIDByDevice :: "'w client \<Rightarrow> device \<Rightarrow> error + string" where
  "getVirtualDiskUUIDByDevice cl newDevice =
     (case Backing newDevice of
        VirtualDiskFlatVer2BackingInfo fileName uuid \<Rightarrow> Inr (formatVirtualDiskUUID cl uuid)
      | OtherBackingInfo \<Rightarrow> Inl ErrNoDiskUUIDFound)"

text \<open>
  The loop of \<open>getVirtualDeviceByPath\<close> drops the error of \<open>getVirtualDiskUUIDByDevice\<close> and
  compares the string it returned, which is empty on an error.
\<close>

definition diskUUIDOrEmpty :: "'w client \<Rightarrow> device \<Rightarrow> string" where
  "diskUUIDOrEmpty cl device =
     (case getVirtualDiskUUIDByDevice cl device of Inl err \<Rightarrow> [] | Inr diskUUID \<Rightarrow> diskUUID)"

definition getVirtualDeviceByPath ::
  "'w client \<Rightarrow> device list \<Rightarrow> string \<Rightarrow> 'w state \<Rightarrow> (error + device option) \<times> 'w state" where
  "getVirtualDeviceByPath cl vmDevices diskPath s =
     (case GetVirtualDiskUUIDByPath cl diskPath s of
        (Inl err, s1) \<Rightarrow> (Inl err, s1)
      | (Inr volumeUUID, s1) \<Rightarrow>
          (Inr (find (\<lambda>device. TypeName device = ''VirtualDisk'' \<and>
                                diskUUIDOrEmpty cl device = volumeUUID) vmDevices), s1))"

definition GetVirtualDiskControllerKey ::
  "'w client \<Rightarrow> string \<Rightarrow> 'w state \<Rightarrow> (error + 32 word) \<times> 'w state" where
  "GetVirtualDiskControllerKey cl diskPath s =
     (case vm_Device cl s of
        (Inl err, s1) \<Rightarrow> (Inl err, s1)
      | (Inr vmDevices, s1) \<Rightarrow>
          (case getVirtualDeviceByPath cl vmDevices diskPath s1 of
             (Inl err, s2) \<Rightarrow> (Inl err, s2)
           | (Inr (Some device), s2) \<Rightarrow> (Inr (ControllerKey device), s2)
           | (Inr None, s2) \<Rightarrow> (Inl ErrNoDevicesFound, s2)))"

definition IsDiskAttached ::
  "'w client \<Rightarrow> string \<Rightarrow> 'w state \<Rightarrow> (error + bool) \<times> 'w state" where
  "IsDiskAttached cl diskPath s =
     (case GetVirtualDiskControllerKey cl diskPath s of
        (Inl err, s1) \<Rightarrow>
          (if err = ErrNoDevicesFound then (Inr False, s1) else (Inl err, s1))
      | (Inr key, s1) \<Rightarrow> (Inr True, s1))"

definition GetVirtualDiskID ::
  "'w client \<Rightarrow> string \<Rightarrow> 'w state \<Rightarrow> (error + string) \<times> 'w state" where
  "GetVirtualDiskID cl diskPath s =
     (case vm_Device cl s of
        (Inl err, s1) \<Rightarrow> (Inl err, s1)
      | (Inr vmDevices, s1) \<Rightarrow>
          (case getVirtualDeviceByPath cl vmDevices diskPath s1 of
             (Inl err, s2) \<Rightarrow> (Inl err, s2)
           | (Inr (Some device), s2) \<Rightarrow> (Inr (lib_Name cl vmDevices device), s2)
           | (Inr None, s2) \<Rightarrow> (Inl ErrNoDiskIDFound, s2)))"

subsection \<open>Detaching a disk, deleting and creating a controller\<close>

definition DetachDisk :: "'w client \<Rightarrow> string \<Rightarrow> 'w state \<Rightarrow> error option \<times> 'w state" where
  "DetachDisk cl vmDiskPath s =
     (case vm_Device cl s of
        (Inl err, s1) \<Rightarrow> (Some err, s1)
      | (Inr vmDevices, s1) \<Rightarrow>
          (case GetVirtualDiskID cl vmDiskPath s1 of
             (Inl err, s2) \<Rightarrow> (Some err, s2)
           | (Inr diskID, s2) \<Rightarrow>
               (case vmDevices_Find cl vmDevices diskID of
                  None \<Rightarrow> (Some (DeviceNotFound diskID), s2)
                | Some device \<Rightarrow>
                    (case vm_RemoveDevice cl device s2 of
                       (Some err, s3) \<Rightarrow> (Some err, s3)
                     | (None, s3) \<Rightarrow> (None, s3)))))"

text \<open>\<open>controllerDevice\<close> is an interface value: \<open>None\<close> is nil.\<close>

definition DeleteController ::
  "'w client \<Rightarrow> device option \<Rightarrow> 'w state \<Rightarrow> error option \<times> 'w state" where
  "DeleteController cl controllerDevice s =
     (case controllerDevice of
        None \<Rightarrow> (Some NilControllerDevice, s)
      | Some controller \<Rightarrow>
          (case vm_Device cl s of
             (Inl err, s1) \<Rightarrow> (Some err, s1)
           | (Inr vmDevices, s1) \<Rightarrow>
               (let controllerDeviceList = SelectByType vmDevices controller in
                if length controllerDeviceList < 1 then (Some ErrNoDevicesFound, s1)
                else
                  (let device = last controllerDeviceList in
                   case vm_RemoveDevice cl device s1 of
                     (Some err, s2) \<Rightarrow> (Some err, s2)
                   | (None, s2) \<Rightarrow> (None, s2)))))"

text \<open>
  The controller that \<open>createAndAttachSCSIController\<close> configures: line 334 takes the
  embedded \<open>VirtualSCSIController\<close> of the new device (a panic when the device is not a
  SCSI controller), lines 335 to 337 write two of its fields.
\<close>

definition configure :: "device \<Rightarrow> VirtualSCSIController \<Rightarrow> device" where
  "configure newSCSIController configNewSCSIController =
     newSCSIController
       \<lparr>SCSI := Some (configNewSCSIController
          \<lparr>HotAddRemove := Some True, SharedBus := VirtualSCSISharingNoSharing\<rparr>)\<rparr>"

definition createAndAttachSCSIController ::
  "'w client \<Rightarrow> string \<Rightarrow> 'w state \<Rightarrow> (error + device) \<times> 'w state" where
  "createAndAttachSCSIController cl diskControllerType s =
     (case vm_Device cl s of
        (Inl err, s1) \<Rightarrow> (Inl err, s1)
      | (Inr vmDevices, s1) \<Rightarrow>
          (let allSCSIControllers = getSCSIControllers cl vmDevices in
           if length allSCSIControllers \<ge> SCSIControllerLimit cl
           then (Inl (SCSIControllerLimitReached (SCSIControllerLimit cl)), s1)
           else
             (case vmDevices_CreateSCSIController cl vmDevices diskControllerType s1 of
                (Inl err, s2) \<Rightarrow> (Inl err, s2)
              | (Inr created, s2) \<Rightarrow>
                  (case SCSI created of
                     None \<Rightarrow> (Inl PanicInterfaceConversion, s2)
                   | Some configNewSCSIController \<Rightarrow>
                       (let newSCSIController = configure created configNewSCSIController in
                        case vm_AddDevice cl newSCSIController s2 of
                          (Some err, s3) \<Rightarrow>
                            (Inl err, snd (DeleteController cl (Some newSCSIController) s3))
                        | (None, s3) \<Rightarrow> (Inr newSCSIController, s3))))))"

subsection \<open>Attaching a disk\<close>

definition GetVMDiskInfo ::
  "'w client \<Rightarrow> device \<Rightarrow> 'w state \<Rightarrow> (error + string \<times> string) \<times> 'w state" where
  "GetVMDiskInfo cl disk s =
     (case vm_Device cl s of
        (Inl err, s1) \<Rightarrow> (Inl err, s1)
      | (Inr vmDevices, s1) \<Rightarrow>
          (let devices = SelectByType vmDevices disk in
           if length devices < 1 then (Inl ErrNoDevicesFound, s1)
           else
             (let newDevice = last devices;
                  deviceName = lib_Name cl devices newDevice
              in case getVirtualDiskUUIDByDevice cl newDevice of
                   Inl err \<Rightarrow> (Inl err, s1)
                 | Inr diskUUID \<Rightarrow> (Inr (deviceName, diskUUID), s1))))"

text \<open>
  \<open>createDiskSpec\<close> is not among the source files. It is a parameter of \<open>AttachDisk\<close>: from
  the disk path and the volume options it returns the new disk and, when it had to create
  one, the new SCSI controller (\<open>None\<close> is nil), or an error.
\<close>

type_synonym 'w createDiskSpec =
  "string \<Rightarrow> VolumeOptions \<Rightarrow> 'w state \<Rightarrow> (error + device \<times> device option) \<times> 'w state"

text \<open>
  \<open>AttachDisk\<close> is declared to return \<open>(diskUUID, err)\<close>. The return statement of the
  already-attached branch gives the UUID alone, the one of line 193 gives the device name
  and the UUID: the result keeps the two shapes apart.
\<close>

datatype attached =
    DiskUUID string
  | DeviceNameAndDiskUUID string string

fun uuidOf :: "attached \<Rightarrow> string" where
  "uuidOf (DiskUUID diskUUID) = diskUUID"
| "uuidOf (DeviceNameAndDiskUUID deviceName diskUUID) = diskUUID"

definition diskConfigSpec :: "device \<Rightarrow> string \<Rightarrow> VirtualMachineConfigSpec" where
  "diskConfigSpec disk storagePolicyID =
     (let deviceConfigSpec =
        \<lparr>Device = disk, Operation = VirtualDeviceConfigSpecOperationAdd, Profile = []\<rparr>;
          deviceConfigSpec =
        (if storagePolicyID \<noteq> [] then
           deviceConfigSpec\<lparr>Profile := Profile deviceConfigSpec @ [storagePolicyID]\<rparr>
         else deviceConfigSpec)
      in \<lparr>DeviceChange = [deviceConfigSpec]\<rparr>)"

text \<open>Lines 170 to 172, repeated at 178 and 187: the clean-up of a controller made here.\<close>

definition deleteIfCreated :: "'w client \<Rightarrow> device option \<Rightarrow> 'w state \<Rightarrow> 'w state" where
  "deleteIfCreated cl newSCSIController s =
     (case newSCSIController of
        None \<Rightarrow> s
      | Some controller \<Rightarrow> snd (DeleteController cl (Some controller) s))"

definition AttachDisk ::
  "'w client \<Rightarrow> 'w createDiskSpec \<Rightarrow> string \<Rightarrow> string \<Rightarrow> string \<Rightarrow> 'w state \<Rightarrow>
     (error + attached) \<times> 'w state" where
  "AttachDisk cl createDiskSpec vmDiskPath storagePolicyID diskControllerType s =
     (if \<not> CheckControllerSupported cl diskControllerType
      then (Inl (NotAValidSCSIControllerType (SCSIControllerTypeValidOptions cl)), s)
      else
        (case IsDiskAttached cl vmDiskPath s of
           (Inl err, s1) \<Rightarrow> (Inl err, s1)
         | (Inr True, s1) \<Rightarrow>
             (case GetVirtualDiskUUIDByPath cl vmDiskPath s1 of
                (Inl err, s2) \<Rightarrow> (Inr (DiskUUID []), s2)
              | (Inr diskUUID, s2) \<Rightarrow> (Inr (DiskUUID diskUUID), s2))
         | (Inr False, s1) \<Rightarrow>
             (case createDiskSpec vmDiskPath
                     \<lparr>DiskFormat = [], StoragePolicyName = [], StoragePolicyID = [],
                      VSANStorageProfileData = [], SCSIControllerType = diskControllerType\<rparr> s1 of
                (Inl err, s2) \<Rightarrow> (Inl err, s2)
              | (Inr (disk, newSCSIController), s2) \<Rightarrow>
                  (case vm_Reconfigure cl (diskConfigSpec disk storagePolicyID) s2 of
                     (Inl err, s3) \<Rightarrow> (Inl err, deleteIfCreated cl newSCSIController s3)
                   | (Inr task, s3) \<Rightarrow>
                       (case task_Wait cl task s3 of
                          (Some err, s4) \<Rightarrow> (Inl err, deleteIfCreated cl newSCSIController s4)
                        | (None, s4) \<Rightarrow>
                            (case GetVMDiskInfo cl disk s4 of
                               (Inl err, s5) \<Rightarrow>
                                 (Inl err,
                                  snd (DetachDisk cl vmDiskPath
                                         (deleteIfCreated cl newSCSIController s5)))
                             | (Inr (deviceName, diskUUID), s5) \<Rightarrow>
                                 (Inr (DeviceNameAndDiskUUID deviceName diskUUID), s5)))))))"

section \<open>The disk managers of package \<open>diskmanagers\<close>\<close>

text \<open>
  \<open>VolumeOptions\<close> and \<open>VMOptions\<close> are pointers (\<open>None\<close> is nil); \<open>vclib.VMOptions\<close> is
  declared outside the source files and none of its fields is read.
\<close>

typedecl VMOptions

record VirtualDisk =
  DiskPath :: string
  VolumeOptions :: "VolumeOptions option"
  VMOptions :: "VMOptions option"

definition VirtualDiskCreateOperation :: string where
  "VirtualDiskCreateOperation = ''Create''"

definition VirtualDiskDeleteOperation :: string where
  "VirtualDiskDeleteOperation = ''Delete''"

text \<open>The two implementations of the interface \<open>VirtualDiskProvider\<close>, as struct literals.\<close>

datatype VirtualDiskProvider =
    virtualDiskManager string "VolumeOptions option"
  | vmDiskManager string "VolumeOptions option" "VMOptions option"

fun policyAware :: "VirtualDiskProvider \<Rightarrow> bool" where
  "policyAware (vmDiskManager _ _ _) = True"
| "policyAware (virtualDiskManager _ _) = False"

datatype dm_error =
    NilPointerDereference  \<comment> \<open>a run-time panic\<close>
  | ErrInvalidVolumeOptions
  | BothStoragePolicySet  \<comment> \<open>line 403\<close>

text \<open>
  \<open>getDiskManager\<close> returns the provider, nil (\<open>None\<close>) when the operation is neither of
  the two, and panics when it reads a field through a nil \<open>VolumeOptions\<close>.
\<close>

definition getDiskManager :: "VirtualDisk \<Rightarrow> string \<Rightarrow> dm_error + VirtualDiskProvider option" where
  "getDiskManager disk diskOperation =
     (if diskOperation = VirtualDiskDeleteOperation
      then Inr (Some (virtualDiskManager (DiskPath disk) (VolumeOptions disk)))
      else if diskOperation = VirtualDiskCreateOperation
      then
        (case VolumeOptions disk of
           None \<Rightarrow> Inl NilPointerDereference
         | Some volumeOptions \<Rightarrow>
             (if StoragePolicyName volumeOptions \<noteq> [] \<or>
                 VSANStorageProfileData volumeOptions \<noteq> [] \<or>
                 StoragePolicyID volumeOptions \<noteq> []
              then Inr (Some (vmDiskManager (DiskPath disk) (VolumeOptions disk) (VMOptions disk)))
              else Inr (Some (virtualDiskManager (DiskPath disk) (VolumeOptions disk)))))
      else Inr None)"

text \<open>
  The methods \<open>Create\<close> and \<open>Delete\<close> of the two providers, the method \<open>VerifyVolumeOptions\<close>
  and the constant \<open>ThinDiskType\<close> are declared outside the source files and are parameters;
  \<open>'r\<close> is whatever a provider's method does and returns. \<open>Create\<close> writes the default disk
  format through the pointer before it dispatches.
\<close>

definition VirtualDisk_Create ::
  "(VolumeOptions \<Rightarrow> bool) \<Rightarrow> string \<Rightarrow> (VirtualDiskProvider \<Rightarrow> 'r) \<Rightarrow> VirtualDisk \<Rightarrow>
     dm_error + 'r" where
  "VirtualDisk_Create VerifyVolumeOptions ThinDiskType providerCreate virtualDisk =
     (case VolumeOptions virtualDisk of
        None \<Rightarrow> Inl NilPointerDereference
      | Some volumeOptions \<Rightarrow>
          (let volumeOptions =
             (if DiskFormat volumeOptions = [] then volumeOptions\<lparr>DiskFormat := ThinDiskType\<rparr>
              else volumeOptions);
               virtualDisk = virtualDisk\<lparr>VolumeOptions := Some volumeOptions\<rparr>
           in if \<not> VerifyVolumeOptions volumeOptions then Inl ErrInvalidVolumeOptions
              else if StoragePolicyID volumeOptions \<noteq> [] \<and> StoragePolicyName volumeOptions \<noteq> []
              then Inl BothStoragePolicySet
              else
                (case getDiskManager virtualDisk VirtualDiskCreateOperation of
                   Inl panic \<Rightarrow> Inl panic
                 | Inr None \<Rightarrow> Inl NilPointerDereference
                 | Inr (Some provider) \<Rightarrow> Inr (providerCreate provider))))"

definition VirtualDisk_Delete :: "(VirtualDiskProvider \<Rightarrow> 'r) \<Rightarrow> VirtualDisk \<Rightarrow> dm_error + 'r" where
  "VirtualDisk_Delete providerDelete virtualDisk =
     (case getDiskManager virtualDisk VirtualDiskDeleteOperation of
        Inl panic \<Rightarrow> Inl panic
      | Inr None \<Rightarrow> Inl NilPointerDereference
      | Inr (Some provider) \<Rightarrow> Inr (providerDelete provider))"

section \<open>A scripted client\<close>

text \<open>
  A client to run the operations on concrete inputs: its world is the list of the answers
  still to give, one for each request in turn. A request that meets an answer of the wrong
  kind, or no answer, fails.
\<close>

datatype response =
    Devices "device list"
  | DiskUuid string
  | TaskStarted nat
  | Done
  | Failure string

fun answerDevice :: "response list \<Rightarrow> (string + device list) \<times> response list" where
  "answerDevice (Devices vmDevices # script) = (Inr vmDevices, script)"
| "answerDevice (Failure msg # script) = (Inl msg, script)"
| "answerDevice (_ # script) = (Inl ''unexpected answer'', script)"
| "answerDevice [] = (Inl ''no answer'', [])"

fun answerUuid :: "response list \<Rightarrow> (string + string) \<times> response list" where
  "answerUuid (DiskUuid uuid # script) = (Inr uuid, script)"
| "answerUuid (Failure msg # script) = (Inl msg, script)"
| "answerUuid (_ # script) = (Inl ''unexpected answer'', script)"
| "answerUuid [] = (Inl ''no answer'', [])"

fun answerTask :: "response list \<Rightarrow> (string + nat) \<times> response list" where
  "answerTask (TaskStarted task # script) = (Inr task, script)"
| "answerTask (Failure msg # script) = (Inl msg, script)"
| "answerTask (_ # script) = (Inl ''unexpected answer'', script)"
| "answerTask [] = (Inl ''no answer'', [])"

fun answerDone :: "response list \<Rightarrow> string option \<times> response list" where
  "answerDone (Done # script) = (None, script)"
| "answerDone (Failure msg # script) = (Some msg, script)"
| "answerDone (_ # script) = (Some ''unexpected answer'', script)"
| "answerDone [] = (Some ''no answer'', [])"

text \<open>
  The library half of the scripted client: a new controller of a known type has the
  type's name, no key yet and unset controller fields; a device is named by its type
  and, for a disk, its file.
\<close>

definition scriptedController :: "string \<Rightarrow> device" where
  "scriptedController name =
     \<lparr>TypeName = name, Key = - 1, ControllerKey = 0, Backing = OtherBackingInfo,
      SCSI = Some \<lparr>HotAddRemove = None, SharedBus = VirtualSCSISharingUnset\<rparr>\<rparr>"

definition scriptedName :: "device list \<Rightarrow> device \<Rightarrow> string" where
  "scriptedName vmDevices device =
     (case Backing device of
        VirtualDiskFlatVer2BackingInfo fileName uuid \<Rightarrow> TypeName device @ '' '' @ fileName
      | OtherBackingInfo \<Rightarrow> TypeName device)"

definition scripted :: "response list client" where
  "scripted =
     \<lparr>SCSIControllerLimit = 4,
      CheckControllerSupported =
        (\<lambda>ctrlType. ctrlType \<in> set [''lsiLogic'', ''lsiLogic-sas'', ''pvscsi'']),
      SCSIControllerTypeValidOptions = ''lsiLogic, lsiLogic-sas, pvscsi'',
      getSCSIControllers = filter (\<lambda>device. SCSI device \<noteq> None),
      formatVirtualDiskUUID = (\<lambda>uuid. RemoveAll (RemoveAll uuid CHR '' '') CHR ''-''),
      remote_Device = answerDevice,
      remote_QueryVirtualDiskUuid = (\<lambda>diskPath. answerUuid),
      remote_Reconfigure = (\<lambda>spec. answerTask),
      remote_Wait = (\<lambda>task. answerDone),
      remote_AddDevice = (\<lambda>device. answerDone),
      remote_RemoveDevice = (\<lambda>device. answerDone),
      lib_CreateSCSIController =
        (\<lambda>vmDevices name.
           if name \<in> set [''lsiLogic'', ''lsiLogic-sas'', ''pvscsi'', ''busLogic'']
           then Inr (scriptedController name)
           else Inl ''unknown SCSI controller type''),
      lib_Name = scriptedName\<rparr>"

text \<open>
  Modelled from the spec: \<open>createDiskSpec\<close> is not among the source files. The spec has the
  orchestrator invoke the controller registry and track a controller that was newly
  created, then build the disk to add. This one reads the device list, takes the first
  SCSI controller or else creates one with \<open>createAndAttachSCSIController\<close>, and builds a
  disk on that controller for the path. It serves to run \<open>AttachDisk\<close> on concrete inputs.
\<close>

definition newDisk :: "device \<Rightarrow> string \<Rightarrow> device" where
  "newDisk scsiController diskPath =
     \<lparr>TypeName = ''VirtualDisk'', Key = - 1, ControllerKey = Key scsiController,
      Backing = VirtualDiskFlatVer2BackingInfo diskPath [], SCSI = None\<rparr>"

definition createDiskSpecFromSpec :: "'w client \<Rightarrow> 'w createDiskSpec" where
  "createDiskSpecFromSpec cl diskPath volumeOptions s =
     (case vm_Device cl s of
        (Inl err, s1) \<Rightarrow> (Inl err, s1)
      | (Inr vmDevices, s1) \<Rightarrow>
          (case getSCSIControllers cl vmDevices of
             scsiController # others \<Rightarrow> (Inr (newDisk scsiController diskPath, None), s1)
           | [] \<Rightarrow>
               (case createAndAttachSCSIController cl (SCSIControllerType volumeOptions) s1 of
                  (Inl err, s2) \<Rightarrow> (Inl err, s2)
                | (Inr newSCSIController, s2) \<Rightarrow>
                    (Inr (newDisk newSCSIController diskPath, Some newSCSIController), s2))))"

text \<open>Devices as vCenter lists them once they are attached, for the scripts.\<close>

definition attachedDisk :: "string \<Rightarrow> string \<Rightarrow> device" where
  "attachedDisk fileName uuid =
     \<lparr>TypeName = ''VirtualDisk'', Key = 2000, ControllerKey = 1000,
      Backing = VirtualDiskFlatVer2BackingInfo fileName uuid, SCSI = None\<rparr>"

definition attachedController :: "string \<Rightarrow> 32 word \<Rightarrow> device" where
  "attachedController name key =
     \<lparr>TypeName = name, Key = key, ControllerKey = 100, Backing = OtherBackingInfo,
      SCSI = Some \<lparr>HotAddRemove = Some True, SharedBus = VirtualSCSISharingNoSharing\<rparr>\<rparr>"

lemmas run =
  scripted_def request_def command_def vm_Device_def vdm_QueryVirtualDiskUuid_def
  vm_Reconfigure_def task_Wait_def vm_AddDevice_def vm_RemoveDevice_def
  vmDevices_CreateSCSIController_def vmDevices_Find_def
  GetVirtualDiskUUIDByPath_def getVirtualDiskUUIDByDevice_def diskUUIDOrEmpty_def
  getVirtualDeviceByPath_def GetVirtualDiskControllerKey_def IsDiskAttached_def
  GetVirtualDiskID_def DetachDisk_def DeleteController_def configure_def
  createAndAttachSCSIController_def GetVMDiskInfo_def diskConfigSpec_def deleteIfCreated_def
  AttachDisk_def createDiskSpecFromSpec_def newDisk_def SelectByType_def
  vmdkPath_def Ext_def scriptedController_def scriptedName_def RemoveAll_def Let_def
  attachedDisk_def attachedController_def

section \<open>Properties of the UUID codec\<close>

lemma list_all_take_drop: "list_all P s \<Longrightarrow> list_all P (take j (drop i s))"
  by (auto simp: list_all_iff dest: in_set_takeD in_set_dropD)

lemma dashed_canonical:
  assumes "length p = 32" "list_all isHex p"
  shows "canonicalUUID (dashed p)"
proof -
  have h: "\<And>i j. list_all isHex (take j (drop i p))"
    using assms(2) by (rule list_all_take_drop)
  have h0: "\<And>j. list_all isHex (take j p)"
    using h [of _ 0] by simp
  have h1: "\<And>i. list_all isHex (drop i p)"
    using h [of "length p"] by simp
  show ?thesis
    using assms(1) h h0 h1 by (simp add: canonicalUUID_def dashed_def slice_def nth_append)
qed

lemma no_hyphen_payload: "CHR ''-'' \<notin> set (payload P u)"
  by (simp add: payload_def RemoveAll_def)

lemma RemoveAll_dashed:
  assumes "length p = 32" "CHR ''-'' \<notin> set p"
  shows "RemoveAll (dashed p) CHR ''-'' = p"
proof -
  have a: "\<And>i j. filter (\<lambda>c. c \<noteq> CHR ''-'') (take j (drop i p)) = take j (drop i p)"
    using assms(2) by (auto simp: filter_id_conv dest: in_set_takeD in_set_dropD)
  have b: "\<And>j. filter (\<lambda>c. c \<noteq> CHR ''-'') (take j p) = take j p"
    using a [of _ 0] by simp
  have c: "\<And>i. filter (\<lambda>c. c \<noteq> CHR ''-'') (drop i p) = drop i p"
    using a [of "length p"] by simp
  have "RemoveAll (dashed p) CHR ''-'' =
      take 8 p @ take 4 (drop 8 p) @ take 4 (drop 12 p) @ take 4 (drop 16 p) @ drop 20 p"
    using assms(1) by (simp add: RemoveAll_def dashed_def slice_def a b c)
  also have "\<dots> = take 8 p @ take 4 (drop 8 p) @ take 4 (drop 12 p) @ drop 16 p"
    using append_take_drop_id [of 4 "drop 16 p"] by simp
  also have "\<dots> = take 8 p @ take 4 (drop 8 p) @ drop 12 p"
    using append_take_drop_id [of 4 "drop 12 p"] by simp
  also have "\<dots> = take 8 p @ drop 8 p"
    using append_take_drop_id [of 4 "drop 8 p"] by simp
  finally show ?thesis by simp
qed

text \<open>
  Claim C4. A raw identifier that, once trimmed, starts with the prefix and whose rest
  without spaces and hyphens is exactly 32 hexadecimal characters is accepted:
  \<open>getvmUUID\<close> returns no error but those 32 characters cut 8-4-4-4-12 with a hyphen at
  each cut, a string of 36 characters in the canonical form, from which removing the
  hyphens gives the 32 characters back.
\<close>

theorem getvmUUID_canonical:
  assumes "HasPrefix (TrimSpace raw) UUIDPrefix"
    and "length (payload UUIDPrefix (TrimSpace raw)) = 32"
    and "list_all isHex (payload UUIDPrefix (TrimSpace raw))"
  shows "getvmUUID UUIDPrefix (Inr raw) = Inr (dashed (payload UUIDPrefix (TrimSpace raw)))
    \<and> dashed (payload UUIDPrefix (TrimSpace raw)) =
        take 8 (payload UUIDPrefix (TrimSpace raw)) @ ''-'' @
        take 4 (drop 8 (payload UUIDPrefix (TrimSpace raw))) @ ''-'' @
        take 4 (drop 12 (payload UUIDPrefix (TrimSpace raw))) @ ''-'' @
        take 4 (drop 16 (payload UUIDPrefix (TrimSpace raw))) @ ''-'' @
        take 12 (drop 20 (payload UUIDPrefix (TrimSpace raw)))
    \<and> length (dashed (payload UUIDPrefix (TrimSpace raw))) = 36
    \<and> canonicalUUID (dashed (payload UUIDPrefix (TrimSpace raw)))
    \<and> RemoveAll (dashed (payload UUIDPrefix (TrimSpace raw))) CHR ''-'' =
        payload UUIDPrefix (TrimSpace raw)"
proof -
  let ?p = "payload UUIDPrefix (TrimSpace raw)"
  have r: "getvmUUID UUIDPrefix (Inr raw) = Inr (dashed ?p)"
    using assms(1,2) by (simp add: getvmUUID_def Let_def)
  have f: "dashed ?p = take 8 ?p @ ''-'' @ take 4 (drop 8 ?p) @ ''-'' @
      take 4 (drop 12 ?p) @ ''-'' @ take 4 (drop 16 ?p) @ ''-'' @ take 12 (drop 20 ?p)"
    by (simp add: dashed_def slice_def)
  have c: "canonicalUUID (dashed ?p)"
    using assms(2,3) by (rule dashed_canonical)
  then have l: "length (dashed ?p) = 36"
    by (simp add: canonicalUUID_def)
  have b: "RemoveAll (dashed ?p) CHR ''-'' = ?p"
    using assms(2) no_hyphen_payload by (rule RemoveAll_dashed)
  show ?thesis
    using r f l c b by blast
qed

theorem getvmUUID_canonical_witness:
  "HasPrefix (TrimSpace ''  VMware-56 4d 39 5e d8 07 e1 8a-cb 25 b7 9f 65 eb 2b 9f  '') ''VMware-''
   \<and> payload ''VMware-'' (TrimSpace ''  VMware-56 4d 39 5e d8 07 e1 8a-cb 25 b7 9f 65 eb 2b 9f  '') =
       ''564d395ed807e18acb25b79f65eb2b9f''
   \<and> list_all isHex ''564d395ed807e18acb25b79f65eb2b9f''
   \<and> getvmUUID ''VMware-'' (Inr ''  VMware-56 4d 39 5e d8 07 e1 8a-cb 25 b7 9f 65 eb 2b 9f  '') =
       Inr ''564d395e-d807-e18a-cb25-b79f65eb2b9f''
   \<and> canonicalUUID ''564d395e-d807-e18a-cb25-b79f65eb2b9f''"
proof -
  let ?raw = "''  VMware-56 4d 39 5e d8 07 e1 8a-cb 25 b7 9f 65 eb 2b 9f  ''"
  have t: "TrimSpace ?raw = ''VMware-56 4d 39 5e d8 07 e1 8a-cb 25 b7 9f 65 eb 2b 9f''"
    by code_simp
  have a: "HasPrefix (TrimSpace ?raw) ''VMware-''"
    unfolding t by (simp add: HasPrefix_def)
  have b: "payload ''VMware-'' (TrimSpace ?raw) = ''564d395ed807e18acb25b79f65eb2b9f''"
    unfolding t by (simp add: payload_def slice_def RemoveAll_def)
  have c: "list_all isHex ''564d395ed807e18acb25b79f65eb2b9f''"
    by (simp add: isHex_def)
  have d: "dashed ''564d395ed807e18acb25b79f65eb2b9f'' = ''564d395e-d807-e18a-cb25-b79f65eb2b9f''"
    by (simp add: dashed_def slice_def)
  show ?thesis
    using getvmUUID_canonical [of ?raw "''VMware-''"] a b c d by simp
qed

text \<open>
  Claim C5, as the code has it. \<open>getvmUUID\<close> fails with one of the two errors that reject
  the identifier exactly when the trimmed identifier lacks the prefix or its payload,
  with spaces and hyphens removed, is not 32 bytes long: the first case gives the prefix
  error, the second the length error. The bytes of the payload are not examined: a payload
  of 32 bytes is accepted whatever its bytes are, hexadecimal or not.
\<close>

theorem getvmUUID_rejects:
  "(\<not> HasPrefix (TrimSpace raw) UUIDPrefix \<longrightarrow>
      getvmUUID UUIDPrefix (Inr raw) = Inl (FailedToMatchPrefix raw)) \<and>
   (HasPrefix (TrimSpace raw) UUIDPrefix \<and> length (payload UUIDPrefix (TrimSpace raw)) \<noteq> 32 \<longrightarrow>
      getvmUUID UUIDPrefix (Inr raw) = Inl (LengthCheckFailed raw)) \<and>
   (HasPrefix (TrimSpace raw) UUIDPrefix \<and> length (payload UUIDPrefix (TrimSpace raw)) = 32 \<longrightarrow>
      getvmUUID UUIDPrefix (Inr raw) = Inr (dashed (payload UUIDPrefix (TrimSpace raw)))) \<and>
   ((\<exists>e. getvmUUID UUIDPrefix (Inr raw) = Inl e \<and> MalformedIdentifier e) \<longleftrightarrow>
      \<not> HasPrefix (TrimSpace raw) UUIDPrefix \<or> length (payload UUIDPrefix (TrimSpace raw)) \<noteq> 32)"
  by (auto simp: getvmUUID_def Let_def)

theorem getvmUUID_rejects_witness:
  "\<not> HasPrefix (TrimSpace ''564d395e-d807-e18a-cb25-b79f65eb2b9f'') ''VMware-'' \<and>
   getvmUUID ''VMware-'' (Inr ''564d395e-d807-e18a-cb25-b79f65eb2b9f'') =
     Inl (FailedToMatchPrefix ''564d395e-d807-e18a-cb25-b79f65eb2b9f'') \<and>
   HasPrefix (TrimSpace ''VMware-56 4d 39 5e'') ''VMware-'' \<and>
   length (payload ''VMware-'' (TrimSpace ''VMware-56 4d 39 5e'')) = 8 \<and>
   getvmUUID ''VMware-'' (Inr ''VMware-56 4d 39 5e'') = Inl (LengthCheckFailed ''VMware-56 4d 39 5e'') \<and>
   HasPrefix (TrimSpace ''VMware-56 4d 39 5e d8 07 e1 8a-cb 25 b7 9f 65 eb 2b 9f'') ''VMware-'' \<and>
   length (payload ''VMware-'' (TrimSpace ''VMware-56 4d 39 5e d8 07 e1 8a-cb 25 b7 9f 65 eb 2b 9f'')) = 32 \<and>
   getvmUUID ''VMware-'' (Inr ''VMware-56 4d 39 5e d8 07 e1 8a-cb 25 b7 9f 65 eb 2b 9f'') =
     Inr ''564d395e-d807-e18a-cb25-b79f65eb2b9f''"
proof -
  let ?a = "''564d395e-d807-e18a-cb25-b79f65eb2b9f''"
  let ?b = "''VMware-56 4d 39 5e''"
  let ?c = "''VMware-56 4d 39 5e d8 07 e1 8a-cb 25 b7 9f 65 eb 2b 9f''"
  have ta: "TrimSpace ?a = ?a" by code_simp
  have tb: "TrimSpace ?b = ?b" by code_simp
  have tc: "TrimSpace ?c = ?c" by code_simp
  have a: "\<not> HasPrefix (TrimSpace ?a) ''VMware-''"
    unfolding ta by (simp add: HasPrefix_def)
  have b: "HasPrefix (TrimSpace ?b) ''VMware-''"
    unfolding tb by (simp add: HasPrefix_def)
  have b': "payload ''VMware-'' (TrimSpace ?b) = ''564d395e''"
    unfolding tb by (simp add: payload_def slice_def RemoveAll_def)
  have c: "HasPrefix (TrimSpace ?c) ''VMware-''"
    unfolding tc by (simp add: HasPrefix_def)
  have c': "payload ''VMware-'' (TrimSpace ?c) = ''564d395ed807e18acb25b79f65eb2b9f''"
    unfolding tc by (simp add: payload_def slice_def RemoveAll_def)
  have d: "dashed ''564d395ed807e18acb25b79f65eb2b9f'' = ''564d395e-d807-e18a-cb25-b79f65eb2b9f''"
    by (simp add: dashed_def slice_def)
  show ?thesis
    using getvmUUID_rejects [of ?a "''VMware-''"] getvmUUID_rejects [of ?b "''VMware-''"]
      getvmUUID_rejects [of ?c "''VMware-''"] a b b' c c' d
    by simp
qed

text \<open>
  The claim as stated fails: a payload of 32 bytes of which two are not hexadecimal digits
  is accepted and dashed.
\<close>

theorem getvmUUID_non_hex_counterexample:
  "HasPrefix (TrimSpace ''VMware-56 4d 39 5e d8 07 e1 8a-cb 25 b7 9f 65 eb 2b zz'') ''VMware-'' \<and>
   payload ''VMware-'' (TrimSpace ''VMware-56 4d 39 5e d8 07 e1 8a-cb 25 b7 9f 65 eb 2b zz'') =
     ''564d395ed807e18acb25b79f65eb2bzz'' \<and>
   length ''564d395ed807e18acb25b79f65eb2bzz'' = 32 \<and>
   \<not> list_all isHex ''564d395ed807e18acb25b79f65eb2bzz'' \<and>
   getvmUUID ''VMware-'' (Inr ''VMware-56 4d 39 5e d8 07 e1 8a-cb 25 b7 9f 65 eb 2b zz'') =
     Inr ''564d395e-d807-e18a-cb25-b79f65eb2bzz''"
proof -
  let ?c = "''VMware-56 4d 39 5e d8 07 e1 8a-cb 25 b7 9f 65 eb 2b zz''"
  have tc: "TrimSpace ?c = ?c" by code_simp
  have c: "HasPrefix (TrimSpace ?c) ''VMware-''"
    unfolding tc by (simp add: HasPrefix_def)
  have c': "payload ''VMware-'' (TrimSpace ?c) = ''564d395ed807e18acb25b79f65eb2bzz''"
    unfolding tc by (simp add: payload_def slice_def RemoveAll_def)
  have d: "dashed ''564d395ed807e18acb25b79f65eb2bzz'' = ''564d395e-d807-e18a-cb25-b79f65eb2bzz''"
    by (simp add: dashed_def slice_def)
  have h: "\<not> list_all isHex ''564d395ed807e18acb25b79f65eb2bzz''"
    by (simp add: isHex_def)
  have "getvmUUID ''VMware-'' (Inr ?c) = Inr ''564d395e-d807-e18a-cb25-b79f65eb2bzz''"
    using c c' d by (simp add: getvmUUID_def Let_def)
  then show ?thesis
    using c c' h by simp
qed

section \<open>Properties of the virtual machine\<close>

subsection \<open>What each request does to the state\<close>

lemma request_trace: "trace (snd (request c f s)) = trace s @ [c]"
  by (simp add: request_def split: prod.splits sum.splits)

lemma command_trace: "trace (snd (command c f s)) = trace s @ [c]"
  by (simp add: command_def split: prod.splits option.splits)

lemma vm_Device_Inr:
  "remote_Device cl (world s) = (Inr vmDevices, w) \<Longrightarrow>
   vm_Device cl s = (Inr vmDevices, \<lparr>world = w, trace = trace s @ [CallDevice]\<rparr>)"
  by (simp add: vm_Device_def request_def)

lemma GetVirtualDiskUUIDByPath_Inr:
  "remote_QueryVirtualDiskUuid cl (vmdkPath p) (world s) = (Inr raw, w) \<Longrightarrow>
   GetVirtualDiskUUIDByPath cl p s =
     (Inr (formatVirtualDiskUUID cl raw),
      \<lparr>world = w, trace = trace s @ [CallQueryVirtualDiskUuid (vmdkPath p)]\<rparr>)"
  by (simp add: GetVirtualDiskUUIDByPath_def vdm_QueryVirtualDiskUuid_def request_def)

lemma GetVirtualDiskUUIDByPath_trace:
  "trace (snd (GetVirtualDiskUUIDByPath cl p s)) =
     trace s @ [CallQueryVirtualDiskUuid (vmdkPath p)]"
  by (simp add: GetVirtualDiskUUIDByPath_def vdm_QueryVirtualDiskUuid_def request_def Let_def
      split: prod.splits sum.splits)

lemma DeleteController_calls:
  "trace (snd (DeleteController cl (Some controller) s)) =
     trace s @ CallDevice #
       (case remote_Device cl (world s) of
          (Inl msg, w) \<Rightarrow> []
        | (Inr vmDevices, w) \<Rightarrow>
            (if SelectByType vmDevices controller = [] then []
             else [CallRemoveDevice (last (SelectByType vmDevices controller))]))"
  by (auto simp: DeleteController_def vm_Device_def vm_RemoveDevice_def request_def command_def
        Let_def less_Suc_eq_0_disj
      split: option.splits prod.splits sum.splits)

lemma DeleteController_trace_prefix:
  "prefix (trace s) (trace (snd (DeleteController cl controllerDevice s)))"
  by (auto simp: DeleteController_def vm_Device_def vm_RemoveDevice_def request_def command_def
        Let_def
      split: option.splits prod.splits sum.splits)

subsection \<open>The check of the controller type\<close>

text \<open>
  Claim C6. For a disk-controller type that is not one of the supported ones, \<open>AttachDisk\<close>
  fails with the error of line 136 and returns the state it was given: the check comes
  first, no request has been made and no call recorded.
\<close>

theorem AttachDisk_unsupported_controller:
  assumes "\<not> CheckControllerSupported cl diskControllerType"
  shows "AttachDisk cl createDiskSpec vmDiskPath storagePolicyID diskControllerType s =
           (Inl (NotAValidSCSIControllerType (SCSIControllerTypeValidOptions cl)), s)"
  using assms by (simp add: AttachDisk_def)

theorem AttachDisk_unsupported_controller_witness:
  "\<not> CheckControllerSupported scripted ''ide'' \<and>
   AttachDisk scripted (createDiskSpecFromSpec scripted) ''[datastore1] vols/disk.vmdk'' [] ''ide''
       \<lparr>world = [Devices []], trace = []\<rparr> =
     (Inl (NotAValidSCSIControllerType ''lsiLogic, lsiLogic-sas, pvscsi''),
      \<lparr>world = [Devices []], trace = []\<rparr>)"
proof -
  have a: "\<not> CheckControllerSupported scripted ''ide''"
    by (simp add: scripted_def)
  show ?thesis
    using AttachDisk_unsupported_controller [OF a, of "createDiskSpecFromSpec scripted"
        "''[datastore1] vols/disk.vmdk''" "[]" "\<lparr>world = [Devices []], trace = []\<rparr>"] a
    by (simp add: scripted_def)
qed

subsection \<open>The limit on SCSI controllers\<close>

lemma createAndAttachSCSIController_limit_iff:
  "(\<exists>n. fst (createAndAttachSCSIController cl t s) = Inl (SCSIControllerLimitReached n)) \<longleftrightarrow>
   (\<exists>vmDevices w. remote_Device cl (world s) = (Inr vmDevices, w) \<and>
       SCSIControllerLimit cl \<le> length (getSCSIControllers cl vmDevices))"
  by (auto simp: createAndAttachSCSIController_def vm_Device_def vmDevices_CreateSCSIController_def
        vm_AddDevice_def request_def command_def Let_def
      split: option.splits prod.splits sum.splits)

lemma createAndAttachSCSIController_at_limit:
  assumes "remote_Device cl (world s) = (Inr vmDevices, w)"
    and "SCSIControllerLimit cl \<le> length (getSCSIControllers cl vmDevices)"
  shows "createAndAttachSCSIController cl t s =
     (Inl (SCSIControllerLimitReached (SCSIControllerLimit cl)),
      \<lparr>world = w, trace = trace s @ [CallDevice]\<rparr>)"
  using assms by (simp add: createAndAttachSCSIController_def vm_Device_Inr)

lemma createAndAttachSCSIController_below_limit:
  fixes cl :: "'w client"
  assumes "remote_Device cl (world s) = (Inr vmDevices, w)"
    and "length (getSCSIControllers cl vmDevices) < SCSIControllerLimit cl"
  shows "prefix (trace s @ [CallDevice, CallCreateSCSIController t])
           (trace (snd (createAndAttachSCSIController cl t s)))"
proof -
  let ?s1 = "\<lparr>world = w, trace = trace s @ [CallDevice]\<rparr>"
  obtain r s2 where c: "vmDevices_CreateSCSIController cl vmDevices t ?s1 = (r, s2)"
    by (cases "vmDevices_CreateSCSIController cl vmDevices t ?s1")
  have "trace (snd (vmDevices_CreateSCSIController cl vmDevices t ?s1)) =
      trace s @ [CallDevice, CallCreateSCSIController t]"
    by (simp add: vmDevices_CreateSCSIController_def request_trace)
  then have t2: "trace s2 = trace s @ [CallDevice, CallCreateSCSIController t]"
    using c by simp
  have unfold: "createAndAttachSCSIController cl t s =
      (case r of
         Inl err \<Rightarrow> (Inl err, s2)
       | Inr created \<Rightarrow>
           (case SCSI created of
              None \<Rightarrow> (Inl PanicInterfaceConversion, s2)
            | Some config \<Rightarrow>
                (case vm_AddDevice cl (configure created config) s2 of
                   (Some err, s3) \<Rightarrow>
                     (Inl err, snd (DeleteController cl (Some (configure created config)) s3))
                 | (None, s3) \<Rightarrow> (Inr (configure created config), s3))))"
    using assms c
    by (simp add: createAndAttachSCSIController_def vm_Device_Inr Let_def
        split: sum.splits option.splits)
  show ?thesis
  proof (cases r)
    case (Inl err)
    then show ?thesis using unfold t2 by simp
  next
    case (Inr created)
    show ?thesis
    proof (cases "SCSI created")
      case None
      then show ?thesis using unfold Inr t2 by simp
    next
      case (Some config)
      obtain e s3 where add: "vm_AddDevice cl (configure created config) s2 = (e, s3)"
        by (cases "vm_AddDevice cl (configure created config) s2")
      have "trace (snd (vm_AddDevice cl (configure created config) s2)) =
          trace s2 @ [CallAddDevice (configure created config)]"
        by (simp add: vm_AddDevice_def command_trace)
      then have t3: "trace s3 = trace s2 @ [CallAddDevice (configure created config)]"
        using add by simp
      show ?thesis
      proof (cases e)
        case None
        then show ?thesis using unfold Inr Some add t2 t3 by simp
      next
        case (Some err)
        have "prefix (trace s3)
            (trace (snd (DeleteController cl (Some (configure created config)) s3)))"
          by (rule DeleteController_trace_prefix)
        then have "prefix (trace s2)
            (trace (snd (DeleteController cl (Some (configure created config)) s3)))"
          unfolding t3 by (rule append_prefixD)
        then show ?thesis using unfold Inr \<open>SCSI created = Some config\<close> Some add t2 by simp
      qed
    qed
  qed
qed

text \<open>
  Claim C3. \<open>createAndAttachSCSIController\<close> fails with the error of the controller limit
  exactly when the device list it reads has at least \<open>SCSIControllerLimit\<close> SCSI
  controllers. In that case the only call made is the reading of the device list: no
  controller is created and none is added. With fewer controllers, the call that creates
  the controller follows the reading of the device list.
\<close>

theorem createAndAttachSCSIController_limit:
  "((\<exists>n. fst (createAndAttachSCSIController cl t s) = Inl (SCSIControllerLimitReached n)) \<longleftrightarrow>
    (\<exists>vmDevices w. remote_Device cl (world s) = (Inr vmDevices, w) \<and>
       SCSIControllerLimit cl \<le> length (getSCSIControllers cl vmDevices))) \<and>
   (\<forall>vmDevices w. remote_Device cl (world s) = (Inr vmDevices, w) \<longrightarrow>
      (SCSIControllerLimit cl \<le> length (getSCSIControllers cl vmDevices) \<longrightarrow>
         createAndAttachSCSIController cl t s =
           (Inl (SCSIControllerLimitReached (SCSIControllerLimit cl)),
            \<lparr>world = w, trace = trace s @ [CallDevice]\<rparr>)) \<and>
      (length (getSCSIControllers cl vmDevices) < SCSIControllerLimit cl \<longrightarrow>
         prefix (trace s @ [CallDevice, CallCreateSCSIController t])
           (trace (snd (createAndAttachSCSIController cl t s)))))"
  using createAndAttachSCSIController_limit_iff [of cl t s]
    createAndAttachSCSIController_at_limit [of cl s _ _ t]
    createAndAttachSCSIController_below_limit [of cl s _ _ t]
  by blast

text \<open>
  The witness runs the scripted client, whose limit is 4, on device lists with three, four
  and five SCSI controllers (and a disk, which does not count).
\<close>

theorem createAndAttachSCSIController_limit_witness:
  "createAndAttachSCSIController scripted ''pvscsi''
     \<lparr>world = [Devices [attachedController ''pvscsi'' 1000, attachedController ''pvscsi'' 1001,
                         attachedDisk ''[datastore1] vols/a.vmdk'' ''6000C298'',
                         attachedController ''lsiLogic'' 1002, attachedController ''pvscsi'' 1003],
               Done],
      trace = []\<rparr> =
     (Inl (SCSIControllerLimitReached 4), \<lparr>world = [Done], trace = [CallDevice]\<rparr>) \<and>
   createAndAttachSCSIController scripted ''pvscsi''
     \<lparr>world = [Devices [attachedController ''pvscsi'' 1000, attachedController ''pvscsi'' 1001,
                         attachedController ''lsiLogic'' 1002, attachedController ''pvscsi'' 1003,
                         attachedController ''pvscsi'' 1004],
               Done],
      trace = []\<rparr> =
     (Inl (SCSIControllerLimitReached 4), \<lparr>world = [Done], trace = [CallDevice]\<rparr>) \<and>
   prefix [CallDevice, CallCreateSCSIController ''pvscsi'']
     (trace (snd (createAndAttachSCSIController scripted ''pvscsi''
        \<lparr>world = [Devices [attachedController ''pvscsi'' 1000, attachedController ''pvscsi'' 1001,
                            attachedDisk ''[datastore1] vols/a.vmdk'' ''6000C298'',
                            attachedController ''lsiLogic'' 1002],
                  Done],
         trace = []\<rparr>)))"
proof -
  let ?four = "[attachedController ''pvscsi'' 1000, attachedController ''pvscsi'' 1001,
                attachedDisk ''[datastore1] vols/a.vmdk'' ''6000C298'',
                attachedController ''lsiLogic'' 1002, attachedController ''pvscsi'' 1003]"
  let ?five = "[attachedController ''pvscsi'' 1000, attachedController ''pvscsi'' 1001,
                attachedController ''lsiLogic'' 1002, attachedController ''pvscsi'' 1003,
                attachedController ''pvscsi'' 1004]"
  let ?three = "[attachedController ''pvscsi'' 1000, attachedController ''pvscsi'' 1001,
                 attachedDisk ''[datastore1] vols/a.vmdk'' ''6000C298'',
                 attachedController ''lsiLogic'' 1002]"
  have limit: "SCSIControllerLimit scripted = 4"
    by (simp add: scripted_def)
  have d4: "remote_Device scripted (world \<lparr>world = [Devices ?four, Done], trace = []\<rparr>) =
      (Inr ?four, [Done])"
    by (simp add: scripted_def)
  have n4: "length (getSCSIControllers scripted ?four) = 4"
    by (simp add: scripted_def attachedController_def attachedDisk_def)
  have d5: "remote_Device scripted (world \<lparr>world = [Devices ?five, Done], trace = []\<rparr>) =
      (Inr ?five, [Done])"
    by (simp add: scripted_def)
  have n5: "length (getSCSIControllers scripted ?five) = 5"
    by (simp add: scripted_def attachedController_def)
  have d3: "remote_Device scripted (world \<lparr>world = [Devices ?three, Done], trace = []\<rparr>) =
      (Inr ?three, [Done])"
    by (simp add: scripted_def)
  have n3: "length (getSCSIControllers scripted ?three) = 3"
    by (simp add: scripted_def attachedController_def attachedDisk_def)
  show ?thesis
    using createAndAttachSCSIController_limit
        [of scripted "''pvscsi''" "\<lparr>world = [Devices ?four, Done], trace = []\<rparr>"]
      createAndAttachSCSIController_limit
        [of scripted "''pvscsi''" "\<lparr>world = [Devices ?five, Done], trace = []\<rparr>"]
      createAndAttachSCSIController_limit
        [of scripted "''pvscsi''" "\<lparr>world = [Devices ?three, Done], trace = []\<rparr>"]
      limit d4 n4 d5 n5 d3 n3
    by simp
qed

subsection \<open>The controller that is created\<close>

text \<open>
  Claim C9, as the code has it. When \<open>createAndAttachSCSIController\<close> succeeds, the
  controller it returns has hot-add/remove set to true and sharing set to no-sharing, and
  the routine has itself added that controller to the VM: its calls are the reading of
  the device list, the creation of the controller and \<open>AddDevice\<close> for the controller
  returned, in this order.
\<close>

theorem createAndAttachSCSIController_success:
  assumes "createAndAttachSCSIController cl t s = (Inr c, s')"
  shows "(\<exists>config. SCSI c = Some config \<and> HotAddRemove config = Some True \<and>
            SharedBus config = VirtualSCSISharingNoSharing) \<and>
         trace s' = trace s @ [CallDevice, CallCreateSCSIController t, CallAddDevice c]"
  using assms
  by (auto simp: createAndAttachSCSIController_def vm_Device_def vmDevices_CreateSCSIController_def
        vm_AddDevice_def request_def command_def Let_def configure_def
      split: option.splits prod.splits sum.splits if_splits)

theorem createAndAttachSCSIController_success_witness:
  "createAndAttachSCSIController scripted ''lsiLogic''
     \<lparr>world = [Devices [attachedController ''pvscsi'' 1000], Done], trace = []\<rparr> =
     (Inr \<lparr>TypeName = ''lsiLogic'', Key = - 1, ControllerKey = 0, Backing = OtherBackingInfo,
           SCSI = Some \<lparr>HotAddRemove = Some True, SharedBus = VirtualSCSISharingNoSharing\<rparr>\<rparr>,
      \<lparr>world = [],
       trace = [CallDevice, CallCreateSCSIController ''lsiLogic'',
                CallAddDevice
                  \<lparr>TypeName = ''lsiLogic'', Key = - 1, ControllerKey = 0,
                   Backing = OtherBackingInfo,
                   SCSI = Some \<lparr>HotAddRemove = Some True,
                                SharedBus = VirtualSCSISharingNoSharing\<rparr>\<rparr>]\<rparr>)"
proof -
  let ?c = "\<lparr>TypeName = ''lsiLogic'', Key = - 1, ControllerKey = 0, Backing = OtherBackingInfo,
             SCSI = Some \<lparr>HotAddRemove = Some True, SharedBus = VirtualSCSISharingNoSharing\<rparr>\<rparr>"
  let ?s = "\<lparr>world = [Devices [attachedController ''pvscsi'' 1000], Done], trace = []\<rparr>"
  have w: "world (snd (createAndAttachSCSIController scripted ''lsiLogic'' ?s)) = []"
    by (simp add: run)
  have r: "fst (createAndAttachSCSIController scripted ''lsiLogic'' ?s) = Inr ?c"
    by (simp add: run)
  then have "createAndAttachSCSIController scripted ''lsiLogic'' ?s =
      (Inr ?c, snd (createAndAttachSCSIController scripted ''lsiLogic'' ?s))"
    by (metis prod.collapse)
  from createAndAttachSCSIController_success [OF this] w r show ?thesis
    by (cases "createAndAttachSCSIController scripted ''lsiLogic'' ?s") auto
qed

text \<open>
  The claim as stated fails: the controller is not returned unregistered. On a VM without
  controllers the routine succeeds, and \<open>AddDevice\<close> for the new controller is among the
  calls it made itself.
\<close>

theorem createAndAttachSCSIController_registers_counterexample:
  "fst (createAndAttachSCSIController scripted ''pvscsi''
          \<lparr>world = [Devices [], Done], trace = []\<rparr>) =
     Inr \<lparr>TypeName = ''pvscsi'', Key = - 1, ControllerKey = 0, Backing = OtherBackingInfo,
          SCSI = Some \<lparr>HotAddRemove = Some True, SharedBus = VirtualSCSISharingNoSharing\<rparr>\<rparr> \<and>
   filter isAddDevice
     (trace (snd (createAndAttachSCSIController scripted ''pvscsi''
                    \<lparr>world = [Devices [], Done], trace = []\<rparr>))) =
     [CallAddDevice
        \<lparr>TypeName = ''pvscsi'', Key = - 1, ControllerKey = 0, Backing = OtherBackingInfo,
         SCSI = Some \<lparr>HotAddRemove = Some True, SharedBus = VirtualSCSISharingNoSharing\<rparr>\<rparr>]"
  by (simp add: run)

subsection \<open>A disk that is already attached\<close>

lemma IsDiskAttached_found:
  assumes "remote_Device cl (world s) = (Inr vmDevices, w1)"
    and "remote_QueryVirtualDiskUuid cl (vmdkPath p) w1 = (Inr raw, w2)"
    and "find (\<lambda>device. TypeName device = ''VirtualDisk'' \<and>
            diskUUIDOrEmpty cl device = formatVirtualDiskUUID cl raw) vmDevices = Some d"
  shows "IsDiskAttached cl p s =
     (Inr True,
      \<lparr>world = w2, trace = trace s @ [CallDevice, CallQueryVirtualDiskUuid (vmdkPath p)]\<rparr>)"
  using assms
  by (simp add: IsDiskAttached_def GetVirtualDiskControllerKey_def vm_Device_Inr
      getVirtualDeviceByPath_def GetVirtualDiskUUIDByPath_Inr)

text \<open>
  Claim C1, as the code has it. Let the controller type be supported and the disk be
  attached: the device list is read, the UUID of the path is resolved, and a disk device
  of the list has that UUID. Then \<open>AttachDisk\<close> makes three calls, the reading of the
  device list and two resolutions of the path, none of them a reconfiguration: the
  reconfigurations recorded after the call are those recorded before it, so that of two
  calls in a row for the same path the second submits none. When its second resolution of
  the path succeeds, \<open>AttachDisk\<close> returns no error but the formatted UUID of that
  resolution, which is the UUID of the attached disk device when the resolution answers
  as the first did.
\<close>

theorem AttachDisk_already_attached:
  assumes "CheckControllerSupported cl t"
    and "remote_Device cl (world s) = (Inr vmDevices, w1)"
    and "remote_QueryVirtualDiskUuid cl (vmdkPath p) w1 = (Inr raw1, w2)"
    and "find (\<lambda>device. TypeName device = ''VirtualDisk'' \<and>
            diskUUIDOrEmpty cl device = formatVirtualDiskUUID cl raw1) vmDevices = Some d"
  shows "trace (snd (AttachDisk cl createDiskSpec p storagePolicyID t s)) =
           trace s @ [CallDevice, CallQueryVirtualDiskUuid (vmdkPath p),
                      CallQueryVirtualDiskUuid (vmdkPath p)]
         \<and> filter isReconfigure (trace (snd (AttachDisk cl createDiskSpec p storagePolicyID t s))) =
             filter isReconfigure (trace s)
         \<and> (\<forall>raw2 w3.
              remote_QueryVirtualDiskUuid cl (vmdkPath p) w2 = (Inr raw2, w3) \<longrightarrow>
              AttachDisk cl createDiskSpec p storagePolicyID t s =
                (Inr (DiskUUID (formatVirtualDiskUUID cl raw2)),
                 \<lparr>world = w3,
                  trace = trace s @ [CallDevice, CallQueryVirtualDiskUuid (vmdkPath p),
                                     CallQueryVirtualDiskUuid (vmdkPath p)]\<rparr>) \<and>
              (raw2 = raw1 \<longrightarrow>
                 d \<in> set vmDevices \<and> TypeName d = ''VirtualDisk'' \<and>
                 diskUUIDOrEmpty cl d = uuidOf (DiskUUID (formatVirtualDiskUUID cl raw2))))"
proof -
  let ?s1 = "\<lparr>world = w2, trace = trace s @ [CallDevice, CallQueryVirtualDiskUuid (vmdkPath p)]\<rparr>"
  have a: "IsDiskAttached cl p s = (Inr True, ?s1)"
    using assms(2,3,4) by (rule IsDiskAttached_found)
  obtain r s2 where g: "GetVirtualDiskUUIDByPath cl p ?s1 = (r, s2)"
    by (cases "GetVirtualDiskUUIDByPath cl p ?s1")
  have "trace s2 = trace ?s1 @ [CallQueryVirtualDiskUuid (vmdkPath p)]"
    using GetVirtualDiskUUIDByPath_trace [of cl p ?s1] g by simp
  moreover have "snd (AttachDisk cl createDiskSpec p storagePolicyID t s) = s2"
    using assms(1) a g by (cases r) (simp_all add: AttachDisk_def)
  ultimately have t: "trace (snd (AttachDisk cl createDiskSpec p storagePolicyID t s)) =
      trace s @ [CallDevice, CallQueryVirtualDiskUuid (vmdkPath p),
                 CallQueryVirtualDiskUuid (vmdkPath p)]"
    by simp
  have r: "\<And>raw2 w3. remote_QueryVirtualDiskUuid cl (vmdkPath p) w2 = (Inr raw2, w3) \<Longrightarrow>
      AttachDisk cl createDiskSpec p storagePolicyID t s =
        (Inr (DiskUUID (formatVirtualDiskUUID cl raw2)),
         \<lparr>world = w3,
          trace = trace s @ [CallDevice, CallQueryVirtualDiskUuid (vmdkPath p),
                             CallQueryVirtualDiskUuid (vmdkPath p)]\<rparr>)"
    using assms(1) a by (simp add: AttachDisk_def GetVirtualDiskUUIDByPath_Inr)
  have f: "d \<in> set vmDevices \<and> TypeName d = ''VirtualDisk'' \<and>
      diskUUIDOrEmpty cl d = formatVirtualDiskUUID cl raw1"
    using assms(4) by (auto simp: find_Some_iff in_set_conv_nth)
  show ?thesis
    using t r f by simp
qed

text \<open>
  The witness: a VM with a controller and the disk; the path is resolved twice to the same
  UUID, in the spaced form that \<open>QueryVirtualDiskUuid\<close> gives.
\<close>

theorem AttachDisk_already_attached_witness:
  "AttachDisk scripted (createDiskSpecFromSpec scripted) ''[datastore1] vols/disk.vmdk'' []
     ''pvscsi''
     \<lparr>world = [Devices [attachedController ''pvscsi'' 1000,
                         attachedDisk ''[datastore1] vols/disk.vmdk''
                           ''6000C298-5a7b-3c4d-9e8f-0a1b2c3d4e5f''],
               DiskUuid ''60 00 C2 98 5a 7b 3c 4d-9e 8f 0a 1b 2c 3d 4e 5f'',
               DiskUuid ''60 00 C2 98 5a 7b 3c 4d-9e 8f 0a 1b 2c 3d 4e 5f''],
      trace = []\<rparr> =
     (Inr (DiskUUID ''6000C2985a7b3c4d9e8f0a1b2c3d4e5f''),
      \<lparr>world = [],
       trace = [CallDevice, CallQueryVirtualDiskUuid ''[datastore1] vols/disk.vmdk'',
                CallQueryVirtualDiskUuid ''[datastore1] vols/disk.vmdk'']\<rparr>) \<and>
   diskUUIDOrEmpty scripted
     (attachedDisk ''[datastore1] vols/disk.vmdk'' ''6000C298-5a7b-3c4d-9e8f-0a1b2c3d4e5f'') =
     ''6000C2985a7b3c4d9e8f0a1b2c3d4e5f''"
proof -
  let ?raw = "''60 00 C2 98 5a 7b 3c 4d-9e 8f 0a 1b 2c 3d 4e 5f''"
  let ?p = "''[datastore1] vols/disk.vmdk''"
  let ?d = "attachedDisk ?p ''6000C298-5a7b-3c4d-9e8f-0a1b2c3d4e5f''"
  let ?devs = "[attachedController ''pvscsi'' 1000, ?d]"
  let ?s = "\<lparr>world = [Devices ?devs, DiskUuid ?raw, DiskUuid ?raw], trace = []\<rparr>"
  have p: "vmdkPath ?p = ?p"
    by (simp add: vmdkPath_def Ext_def)
  have h1: "CheckControllerSupported scripted ''pvscsi''"
    by (simp add: scripted_def)
  have h2: "remote_Device scripted (world ?s) = (Inr ?devs, [DiskUuid ?raw, DiskUuid ?raw])"
    by (simp add: scripted_def)
  have h3: "remote_QueryVirtualDiskUuid scripted (vmdkPath ?p) [DiskUuid ?raw, DiskUuid ?raw] =
      (Inr ?raw, [DiskUuid ?raw])"
    by (simp add: scripted_def)
  have f: "formatVirtualDiskUUID scripted ?raw = ''6000C2985a7b3c4d9e8f0a1b2c3d4e5f''"
    by (simp add: scripted_def RemoveAll_def)
  have u: "diskUUIDOrEmpty scripted ?d = ''6000C2985a7b3c4d9e8f0a1b2c3d4e5f''"
    by (simp add: run)
  have h4: "find (\<lambda>device. TypeName device = ''VirtualDisk'' \<and>
      diskUUIDOrEmpty scripted device = formatVirtualDiskUUID scripted ?raw) ?devs = Some ?d"
    unfolding f by (simp add: run)
  have h5: "remote_QueryVirtualDiskUuid scripted (vmdkPath ?p) [DiskUuid ?raw] = (Inr ?raw, [])"
    by (simp add: scripted_def)
  show ?thesis
    using AttachDisk_already_attached [OF h1 h2 h3 h4, of "createDiskSpecFromSpec scripted" "[]"]
      h5 p f u
    by simp
qed

text \<open>
  The claim as stated fails: the attached check reports true, the second resolution of the
  path fails, and \<open>AttachDisk\<close> returns the empty string, which is not the UUID of the
  attached disk.
\<close>

theorem AttachDisk_already_attached_counterexample:
  "IsDiskAttached scripted ''[datastore1] vols/data.vmdk''
     \<lparr>world = [Devices [attachedDisk ''[datastore1] vols/data.vmdk''
                           ''6000C29d-1111-2222-3333-444455556666''],
               DiskUuid ''60 00 C2 9d 11 11 22 22-33 33 44 44 55 55 66 66'',
               Failure ''connection reset by peer''],
      trace = []\<rparr> =
     (Inr True,
      \<lparr>world = [Failure ''connection reset by peer''],
       trace = [CallDevice, CallQueryVirtualDiskUuid ''[datastore1] vols/data.vmdk'']\<rparr>) \<and>
   AttachDisk scripted (createDiskSpecFromSpec scripted) ''[datastore1] vols/data.vmdk'' []
     ''pvscsi''
     \<lparr>world = [Devices [attachedDisk ''[datastore1] vols/data.vmdk''
                           ''6000C29d-1111-2222-3333-444455556666''],
               DiskUuid ''60 00 C2 9d 11 11 22 22-33 33 44 44 55 55 66 66'',
               Failure ''connection reset by peer''],
      trace = []\<rparr> =
     (Inr (DiskUUID []),
      \<lparr>world = [],
       trace = [CallDevice, CallQueryVirtualDiskUuid ''[datastore1] vols/data.vmdk'',
                CallQueryVirtualDiskUuid ''[datastore1] vols/data.vmdk'']\<rparr>) \<and>
   diskUUIDOrEmpty scripted
     (attachedDisk ''[datastore1] vols/data.vmdk'' ''6000C29d-1111-2222-3333-444455556666'') =
     ''6000C29d111122223333444455556666''"
  by (simp add: run)

text \<open>
  Claim C10. In the already-attached branch the error of the second resolution of the path
  is dropped: when the attached check reports true and that resolution fails, \<open>AttachDisk\<close>
  returns the empty UUID and no error.
\<close>

theorem AttachDisk_attached_resolution_fails:
  assumes "CheckControllerSupported cl t"
    and "IsDiskAttached cl p s = (Inr True, s1)"
    and "GetVirtualDiskUUIDByPath cl p s1 = (Inl err, s2)"
  shows "AttachDisk cl createDiskSpec p storagePolicyID t s = (Inr (DiskUUID []), s2)"
  using assms by (simp add: AttachDisk_def)

text \<open>The witness: a path without extension, and a second resolution that times out.\<close>

theorem AttachDisk_attached_resolution_fails_witness:
  "AttachDisk scripted (createDiskSpecFromSpec scripted) ''[vsanDatastore] kubevols/redis'' []
     ''lsiLogic''
     \<lparr>world = [Devices [attachedDisk ''[vsanDatastore] kubevols/redis.vmdk''
                           ''6000C29a-aaaa-bbbb-cccc-ddddeeeeffff''],
               DiskUuid ''60 00 C2 9a aa aa bb bb-cc cc dd dd ee ee ff ff'',
               Failure ''request timed out''],
      trace = []\<rparr> =
     (Inr (DiskUUID []),
      \<lparr>world = [],
       trace = [CallDevice, CallQueryVirtualDiskUuid ''[vsanDatastore] kubevols/redis.vmdk'',
                CallQueryVirtualDiskUuid ''[vsanDatastore] kubevols/redis.vmdk'']\<rparr>)"
proof -
  let ?p = "''[vsanDatastore] kubevols/redis''"
  let ?s = "\<lparr>world = [Devices [attachedDisk ''[vsanDatastore] kubevols/redis.vmdk''
                                   ''6000C29a-aaaa-bbbb-cccc-ddddeeeeffff''],
                       DiskUuid ''60 00 C2 9a aa aa bb bb-cc cc dd dd ee ee ff ff'',
                       Failure ''request timed out''],
              trace = []\<rparr>"
  let ?s1 = "\<lparr>world = [Failure ''request timed out''],
               trace = [CallDevice,
                        CallQueryVirtualDiskUuid ''[vsanDatastore] kubevols/redis.vmdk'']\<rparr>"
  let ?s2 = "\<lparr>world = [],
               trace = [CallDevice,
                        CallQueryVirtualDiskUuid ''[vsanDatastore] kubevols/redis.vmdk'',
                        CallQueryVirtualDiskUuid ''[vsanDatastore] kubevols/redis.vmdk'']\<rparr>"
  have h1: "CheckControllerSupported scripted ''lsiLogic''"
    by (simp add: scripted_def)
  have h2: "IsDiskAttached scripted ?p ?s = (Inr True, ?s1)"
    by (simp add: run)
  have h3: "GetVirtualDiskUUIDByPath scripted ?p ?s1 = (Inl ErrNoDiskUUIDFound, ?s2)"
    by (simp add: run)
  show ?thesis
    using AttachDisk_attached_resolution_fails [OF h1 h2 h3, of "createDiskSpecFromSpec scripted" "[]"]
    by simp
qed

subsection \<open>Failure after a controller was created\<close>

text \<open>
  Claim C2. Let \<open>AttachDisk\<close> get past the attached check and \<open>createDiskSpec\<close> return a
  newly created controller. When the reconfiguration request fails, or the wait for its
  task fails, or the look-up of the new disk fails, \<open>AttachDisk\<close> returns the error of
  that step, and the state it returns is the one \<open>DeleteController\<close> leaves when it runs,
  for that controller, from the state after the failed step (followed, for the look-up,
  by \<open>DetachDisk\<close>). The error of \<open>DeleteController\<close> itself is nowhere in the result.
  \<open>DeleteController\<close> in turn always reads the device list and, when the list has a device
  of the controller's type, asks to remove the last of them.
\<close>

theorem AttachDisk_cleanup:
  assumes "CheckControllerSupported cl t"
    and "IsDiskAttached cl p s = (Inr False, s1)"
    and "createDiskSpec p \<lparr>DiskFormat = [], StoragePolicyName = [], StoragePolicyID = [],
                           VSANStorageProfileData = [], SCSIControllerType = t\<rparr> s1 =
           (Inr (disk, Some controller), s2)"
  shows "(\<forall>err s3. vm_Reconfigure cl (diskConfigSpec disk storagePolicyID) s2 = (Inl err, s3) \<longrightarrow>
            AttachDisk cl createDiskSpec p storagePolicyID t s =
              (Inl err, snd (DeleteController cl (Some controller) s3))) \<and>
         (\<forall>task s3 err s4.
            vm_Reconfigure cl (diskConfigSpec disk storagePolicyID) s2 = (Inr task, s3) \<and>
            task_Wait cl task s3 = (Some err, s4) \<longrightarrow>
            AttachDisk cl createDiskSpec p storagePolicyID t s =
              (Inl err, snd (DeleteController cl (Some controller) s4))) \<and>
         (\<forall>task s3 s4 err s5.
            vm_Reconfigure cl (diskConfigSpec disk storagePolicyID) s2 = (Inr task, s3) \<and>
            task_Wait cl task s3 = (None, s4) \<and>
            GetVMDiskInfo cl disk s4 = (Inl err, s5) \<longrightarrow>
            AttachDisk cl createDiskSpec p storagePolicyID t s =
              (Inl err,
               snd (DetachDisk cl p (snd (DeleteController cl (Some controller) s5))))) \<and>
         (\<forall>s'. trace (snd (DeleteController cl (Some controller) s')) =
            trace s' @ CallDevice #
              (case remote_Device cl (world s') of
                 (Inl msg, w) \<Rightarrow> []
               | (Inr vmDevices, w) \<Rightarrow>
                   (if SelectByType vmDevices controller = [] then []
                    else [CallRemoveDevice (last (SelectByType vmDevices controller))])))"
  using assms DeleteController_calls [of cl controller]
  by (simp add: AttachDisk_def deleteIfCreated_def)

text \<open>
  The witness runs three requests on a VM without controller or disk, so that
  \<open>createDiskSpecFromSpec\<close> creates a controller: in the first the reconfiguration request
  fails, in the second the task fails, in the third the device list cannot be read after
  the task. Each returns the error of the failed step; the calls after the failed one
  are the reading of the device list and the removal of the controller.
\<close>

theorem AttachDisk_cleanup_witness:
  "fst (AttachDisk scripted (createDiskSpecFromSpec scripted) ''[datastore1] vols/a.vmdk''
          ''gold'' ''pvscsi''
          \<lparr>world = [Devices [], DiskUuid ''60 00 C2 98 5a 7b 3c 4d-9e 8f 0a 1b 2c 3d 4e 5f'',
                    Devices [], Devices [], Done,
                    Failure ''reconfigure failed'',
                    Devices [attachedController ''pvscsi'' 1000], Failure ''remove failed''],
           trace = []\<rparr>) = Inl (RemoteError ''reconfigure failed'') \<and>
   drop 6 (trace (snd (AttachDisk scripted (createDiskSpecFromSpec scripted)
          ''[datastore1] vols/a.vmdk'' ''gold'' ''pvscsi''
          \<lparr>world = [Devices [], DiskUuid ''60 00 C2 98 5a 7b 3c 4d-9e 8f 0a 1b 2c 3d 4e 5f'',
                    Devices [], Devices [], Done,
                    Failure ''reconfigure failed'',
                    Devices [attachedController ''pvscsi'' 1000], Failure ''remove failed''],
           trace = []\<rparr>))) =
     [CallReconfigure
        (diskConfigSpec
           (newDisk (configure (scriptedController ''pvscsi'')
                       \<lparr>HotAddRemove = None, SharedBus = VirtualSCSISharingUnset\<rparr>)
              ''[datastore1] vols/a.vmdk'') ''gold''),
      CallDevice, CallRemoveDevice (attachedController ''pvscsi'' 1000)] \<and>
   fst (AttachDisk scripted (createDiskSpecFromSpec scripted) ''[datastore1] vols/a.vmdk''
          ''gold'' ''pvscsi''
          \<lparr>world = [Devices [], DiskUuid ''60 00 C2 98 5a 7b 3c 4d-9e 8f 0a 1b 2c 3d 4e 5f'',
                    Devices [], Devices [], Done,
                    TaskStarted 7, Failure ''task failed'',
                    Devices [attachedController ''lsiLogic'' 1000,
                             attachedController ''pvscsi'' 1001], Done],
           trace = []\<rparr>) = Inl (RemoteError ''task failed'') \<and>
   drop 7 (trace (snd (AttachDisk scripted (createDiskSpecFromSpec scripted)
          ''[datastore1] vols/a.vmdk'' ''gold'' ''pvscsi''
          \<lparr>world = [Devices [], DiskUuid ''60 00 C2 98 5a 7b 3c 4d-9e 8f 0a 1b 2c 3d 4e 5f'',
                    Devices [], Devices [], Done,
                    TaskStarted 7, Failure ''task failed'',
                    Devices [attachedController ''lsiLogic'' 1000,
                             attachedController ''pvscsi'' 1001], Done],
           trace = []\<rparr>))) =
     [CallWait 7, CallDevice, CallRemoveDevice (attachedController ''pvscsi'' 1001)] \<and>
   fst (AttachDisk scripted (createDiskSpecFromSpec scripted) ''[datastore1] vols/a.vmdk''
          ''gold'' ''pvscsi''
          \<lparr>world = [Devices [], DiskUuid ''60 00 C2 98 5a 7b 3c 4d-9e 8f 0a 1b 2c 3d 4e 5f'',
                    Devices [], Devices [], Done,
                    TaskStarted 7, Done, Failure ''session expired'',
                    Devices [attachedController ''pvscsi'' 1000], Done,
                    Failure ''session expired''],
           trace = []\<rparr>) = Inl (RemoteError ''session expired'') \<and>
   drop 8 (trace (snd (AttachDisk scripted (createDiskSpecFromSpec scripted)
          ''[datastore1] vols/a.vmdk'' ''gold'' ''pvscsi''
          \<lparr>world = [Devices [], DiskUuid ''60 00 C2 98 5a 7b 3c 4d-9e 8f 0a 1b 2c 3d 4e 5f'',
                    Devices [], Devices [], Done,
                    TaskStarted 7, Done, Failure ''session expired'',
                    Devices [attachedController ''pvscsi'' 1000], Done,
                    Failure ''session expired''],
           trace = []\<rparr>))) =
     [CallDevice, CallDevice, CallRemoveDevice (attachedController ''pvscsi'' 1000), CallDevice]"
proof -
  let ?p = "''[datastore1] vols/a.vmdk''"
  let ?uuid = "DiskUuid ''60 00 C2 98 5a 7b 3c 4d-9e 8f 0a 1b 2c 3d 4e 5f''"
  let ?cds = "createDiskSpecFromSpec scripted"
  let ?options = "\<lparr>DiskFormat = [], StoragePolicyName = [], StoragePolicyID = [],
                    VSANStorageProfileData = [], SCSIControllerType = ''pvscsi''\<rparr>"
  let ?controller = "configure (scriptedController ''pvscsi'')
                       \<lparr>HotAddRemove = None, SharedBus = VirtualSCSISharingUnset\<rparr>"
  let ?disk = "newDisk ?controller ?p"
  let ?spec = "diskConfigSpec ?disk ''gold''"
  let ?before = "[CallDevice, CallQueryVirtualDiskUuid ?p, CallDevice, CallDevice,
                  CallCreateSCSIController ''pvscsi'', CallAddDevice ?controller]"
  have h1: "CheckControllerSupported scripted ''pvscsi''"
    by (simp add: scripted_def)
  have vp: "vmdkPath ?p = ?p"
    by (simp add: vmdkPath_def Ext_def)
  have h2: "\<And>rest. IsDiskAttached scripted ?p
        \<lparr>world = Devices [] # ?uuid # rest, trace = []\<rparr> =
      (Inr False, \<lparr>world = rest, trace = [CallDevice, CallQueryVirtualDiskUuid ?p]\<rparr>)"
    by (simp add: run)
  have h3: "\<And>rest. ?cds ?p ?options
        \<lparr>world = Devices [] # Devices [] # Done # rest,
         trace = [CallDevice, CallQueryVirtualDiskUuid ?p]\<rparr> =
      (Inr (?disk, Some ?controller), \<lparr>world = rest, trace = ?before\<rparr>)"
    by (simp add: run)

  let ?rest1 = "[Failure ''reconfigure failed'', Devices [attachedController ''pvscsi'' 1000],
                 Failure ''remove failed'']"
  let ?s3 = "\<lparr>world = [Devices [attachedController ''pvscsi'' 1000], Failure ''remove failed''],
               trace = ?before @ [CallReconfigure ?spec]\<rparr>"
  have a1: "vm_Reconfigure scripted ?spec \<lparr>world = ?rest1, trace = ?before\<rparr> =
      (Inl (RemoteError ''reconfigure failed''), ?s3)"
    by (simp add: vm_Reconfigure_def request_def scripted_def)
  have r1: "AttachDisk scripted ?cds ?p ''gold'' ''pvscsi''
        \<lparr>world = Devices [] # ?uuid # Devices [] # Devices [] # Done # ?rest1, trace = []\<rparr> =
      (Inl (RemoteError ''reconfigure failed''), snd (DeleteController scripted (Some ?controller) ?s3))"
    using AttachDisk_cleanup [of scripted "''pvscsi''" ?p _ _ ?cds ?disk ?controller _ "''gold''",
           OF h1 h2 h3, of ?rest1] a1 by blast
  have d1: "trace (snd (DeleteController scripted (Some ?controller) ?s3)) =
      ?before @ [CallReconfigure ?spec, CallDevice,
                 CallRemoveDevice (attachedController ''pvscsi'' 1000)]"
    by (simp add: run)

  let ?rest2 = "[TaskStarted 7, Failure ''task failed'',
                 Devices [attachedController ''lsiLogic'' 1000, attachedController ''pvscsi'' 1001],
                 Done]"
  let ?t3 = "\<lparr>world = [Failure ''task failed'',
                        Devices [attachedController ''lsiLogic'' 1000,
                                 attachedController ''pvscsi'' 1001], Done],
               trace = ?before @ [CallReconfigure ?spec]\<rparr>"
  let ?t4 = "\<lparr>world = [Devices [attachedController ''lsiLogic'' 1000,
                                 attachedController ''pvscsi'' 1001], Done],
               trace = ?before @ [CallReconfigure ?spec, CallWait 7]\<rparr>"
  have a2: "vm_Reconfigure scripted ?spec \<lparr>world = ?rest2, trace = ?before\<rparr> = (Inr 7, ?t3)"
    by (simp add: vm_Reconfigure_def request_def scripted_def)
  have b2: "task_Wait scripted 7 ?t3 = (Some (RemoteError ''task failed''), ?t4)"
    by (simp add: task_Wait_def command_def scripted_def)
  have r2: "AttachDisk scripted ?cds ?p ''gold'' ''pvscsi''
        \<lparr>world = Devices [] # ?uuid # Devices [] # Devices [] # Done # ?rest2, trace = []\<rparr> =
      (Inl (RemoteError ''task failed''), snd (DeleteController scripted (Some ?controller) ?t4))"
    using AttachDisk_cleanup [of scripted "''pvscsi''" ?p _ _ ?cds ?disk ?controller _ "''gold''",
           OF h1 h2 h3, of ?rest2] a2 b2 by blast
  have d2: "trace (snd (DeleteController scripted (Some ?controller) ?t4)) =
      ?before @ [CallReconfigure ?spec, CallWait 7, CallDevice,
                 CallRemoveDevice (attachedController ''pvscsi'' 1001)]"
    by (simp add: run)

  let ?rest3 = "[TaskStarted 7, Done, Failure ''session expired'',
                 Devices [attachedController ''pvscsi'' 1000], Done, Failure ''session expired'']"
  let ?u3 = "\<lparr>world = [Done, Failure ''session expired'',
                        Devices [attachedController ''pvscsi'' 1000], Done,
                        Failure ''session expired''],
               trace = ?before @ [CallReconfigure ?spec]\<rparr>"
  let ?u4 = "\<lparr>world = [Failure ''session expired'',
                        Devices [attachedController ''pvscsi'' 1000], Done,
                        Failure ''session expired''],
               trace = ?before @ [CallReconfigure ?spec, CallWait 7]\<rparr>"
  let ?u5 = "\<lparr>world = [Devices [attachedController ''pvscsi'' 1000], Done,
                        Failure ''session expired''],
               trace = ?before @ [CallReconfigure ?spec, CallWait 7, CallDevice]\<rparr>"
  have a3: "vm_Reconfigure scripted ?spec \<lparr>world = ?rest3, trace = ?before\<rparr> = (Inr 7, ?u3)"
    by (simp add: vm_Reconfigure_def request_def scripted_def)
  have b3: "task_Wait scripted 7 ?u3 = (None, ?u4)"
    by (simp add: task_Wait_def command_def scripted_def)
  have c3: "GetVMDiskInfo scripted ?disk ?u4 = (Inl (RemoteError ''session expired''), ?u5)"
    by (simp add: GetVMDiskInfo_def vm_Device_def request_def scripted_def)
  have r3: "AttachDisk scripted ?cds ?p ''gold'' ''pvscsi''
        \<lparr>world = Devices [] # ?uuid # Devices [] # Devices [] # Done # ?rest3, trace = []\<rparr> =
      (Inl (RemoteError ''session expired''),
       snd (DetachDisk scripted ?p (snd (DeleteController scripted (Some ?controller) ?u5))))"
    using AttachDisk_cleanup [of scripted "''pvscsi''" ?p _ _ ?cds ?disk ?controller _ "''gold''",
           OF h1 h2 h3, of ?rest3] a3 b3 c3 by blast
  have d3: "trace (snd (DetachDisk scripted ?p
        (snd (DeleteController scripted (Some ?controller) ?u5)))) =
      ?before @ [CallReconfigure ?spec, CallWait 7, CallDevice, CallDevice,
                 CallRemoveDevice (attachedController ''pvscsi'' 1000), CallDevice]"
    by (simp add: run)
  show ?thesis
    unfolding r1 r2 r3 fst_conv snd_conv d1 d2 d3 by simp
qed

subsection \<open>The disk that a successful attach reports\<close>

lemma GetVMDiskInfo_Inr:
  assumes "GetVMDiskInfo cl disk s4 = (Inr (n, u), s5)"
  shows "\<exists>vmDevices. remote_Device cl (world s4) = (Inr vmDevices, world s5) \<and>
      trace s5 = trace s4 @ [CallDevice] \<and>
      SelectByType vmDevices disk \<noteq> [] \<and>
      n = lib_Name cl (SelectByType vmDevices disk) (last (SelectByType vmDevices disk)) \<and>
      getVirtualDiskUUIDByDevice cl (last (SelectByType vmDevices disk)) = Inr u"
  using assms
  by (auto simp: GetVMDiskInfo_def vm_Device_def request_def Let_def
      split: prod.splits sum.splits if_splits)

text \<open>
  Claim C8, as the code has it. When \<open>AttachDisk\<close> attaches the disk and succeeds, it has
  read the device list once more after the task, and the name and the UUID it returns are
  those of the last device of that list whose type is the type of the disk it added,
  whichever device that is; the UUID is the formatted UUID of that device's backing.
\<close>

theorem AttachDisk_reports_last_disk:
  assumes "AttachDisk cl createDiskSpec p storagePolicyID t s =
             (Inr (DeviceNameAndDiskUUID n u), s')"
  shows "\<exists>s1 s2 s3 s4 disk newSCSIController task vmDevices.
      IsDiskAttached cl p s = (Inr False, s1) \<and>
      createDiskSpec p \<lparr>DiskFormat = [], StoragePolicyName = [], StoragePolicyID = [],
                         VSANStorageProfileData = [], SCSIControllerType = t\<rparr> s1 =
        (Inr (disk, newSCSIController), s2) \<and>
      vm_Reconfigure cl (diskConfigSpec disk storagePolicyID) s2 = (Inr task, s3) \<and>
      task_Wait cl task s3 = (None, s4) \<and>
      remote_Device cl (world s4) = (Inr vmDevices, world s') \<and>
      trace s' = trace s4 @ [CallDevice] \<and>
      SelectByType vmDevices disk \<noteq> [] \<and>
      n = lib_Name cl (SelectByType vmDevices disk) (last (SelectByType vmDevices disk)) \<and>
      getVirtualDiskUUIDByDevice cl (last (SelectByType vmDevices disk)) = Inr u"
proof -
  from assms obtain s1 s2 s3 s4 disk newSCSIController task where
    a: "IsDiskAttached cl p s = (Inr False, s1)"
    and b: "createDiskSpec p \<lparr>DiskFormat = [], StoragePolicyName = [], StoragePolicyID = [],
                               VSANStorageProfileData = [], SCSIControllerType = t\<rparr> s1 =
        (Inr (disk, newSCSIController), s2)"
    and c: "vm_Reconfigure cl (diskConfigSpec disk storagePolicyID) s2 = (Inr task, s3)"
    and d: "task_Wait cl task s3 = (None, s4)"
    and e: "GetVMDiskInfo cl disk s4 = (Inr (n, u), s')"
    by (auto simp: AttachDisk_def
        split: if_splits prod.splits sum.splits bool.splits option.splits)
  from GetVMDiskInfo_Inr [OF e] a b c d show ?thesis
    by blast
qed

text \<open>
  The witness: the VM has a controller and no disk, and the device list read after the
  task ends with the disk of the request.
\<close>

theorem AttachDisk_reports_last_disk_witness:
  "AttachDisk scripted (createDiskSpecFromSpec scripted) ''[datastore1] vols/a.vmdk'' []
     ''pvscsi''
     \<lparr>world = [Devices [attachedController ''pvscsi'' 1000],
               DiskUuid ''60 00 C2 98 5a 7b 3c 4d-9e 8f 0a 1b 2c 3d 4e 5f'',
               Devices [attachedController ''pvscsi'' 1000], TaskStarted 7, Done,
               Devices [attachedController ''pvscsi'' 1000,
                        attachedDisk ''[datastore1] vols/a.vmdk''
                          ''6000C298-5a7b-3c4d-9e8f-0a1b2c3d4e5f'']],
      trace = []\<rparr> =
     (Inr (DeviceNameAndDiskUUID ''VirtualDisk [datastore1] vols/a.vmdk''
             ''6000C2985a7b3c4d9e8f0a1b2c3d4e5f''),
      \<lparr>world = [],
       trace = [CallDevice, CallQueryVirtualDiskUuid ''[datastore1] vols/a.vmdk'', CallDevice,
                CallReconfigure
                  (diskConfigSpec
                     (newDisk (attachedController ''pvscsi'' 1000) ''[datastore1] vols/a.vmdk'')
                     []),
                CallWait 7, CallDevice]\<rparr>) \<and>
   (\<exists>vmDevices disk.
      SelectByType vmDevices disk \<noteq> [] \<and>
      ''VirtualDisk [datastore1] vols/a.vmdk'' =
        lib_Name scripted (SelectByType vmDevices disk) (last (SelectByType vmDevices disk)) \<and>
      getVirtualDiskUUIDByDevice scripted (last (SelectByType vmDevices disk)) =
        Inr ''6000C2985a7b3c4d9e8f0a1b2c3d4e5f'')"
proof -
  let ?s = "\<lparr>world = [Devices [attachedController ''pvscsi'' 1000],
               DiskUuid ''60 00 C2 98 5a 7b 3c 4d-9e 8f 0a 1b 2c 3d 4e 5f'',
               Devices [attachedController ''pvscsi'' 1000], TaskStarted 7, Done,
               Devices [attachedController ''pvscsi'' 1000,
                        attachedDisk ''[datastore1] vols/a.vmdk''
                          ''6000C298-5a7b-3c4d-9e8f-0a1b2c3d4e5f'']],
      trace = []\<rparr>"
  let ?s' = "\<lparr>world = [],
       trace = [CallDevice, CallQueryVirtualDiskUuid ''[datastore1] vols/a.vmdk'', CallDevice,
                CallReconfigure
                  (diskConfigSpec
                     (newDisk (attachedController ''pvscsi'' 1000) ''[datastore1] vols/a.vmdk'')
                     []),
                CallWait 7, CallDevice]\<rparr>"
  have r: "AttachDisk scripted (createDiskSpecFromSpec scripted) ''[datastore1] vols/a.vmdk'' []
      ''pvscsi'' ?s =
     (Inr (DeviceNameAndDiskUUID ''VirtualDisk [datastore1] vols/a.vmdk''
             ''6000C2985a7b3c4d9e8f0a1b2c3d4e5f''), ?s')"
    by (simp add: run)
  from AttachDisk_reports_last_disk [OF r] have
    "\<exists>vmDevices disk.
      SelectByType vmDevices disk \<noteq> [] \<and>
      ''VirtualDisk [datastore1] vols/a.vmdk'' =
        lib_Name scripted (SelectByType vmDevices disk) (last (SelectByType vmDevices disk)) \<and>
      getVirtualDiskUUIDByDevice scripted (last (SelectByType vmDevices disk)) =
        Inr ''6000C2985a7b3c4d9e8f0a1b2c3d4e5f''"
    by blast
  with r show ?thesis
    by blast
qed

text \<open>
  The claim as stated fails: the device is not found by its identity. The request adds the
  disk of \<open>a.vmdk\<close>; the device list read after the task holds that disk and, after it, the
  disk of \<open>b.vmdk\<close> (attached by another request in the meantime); \<open>AttachDisk\<close> succeeds
  and returns the name and the UUID of the disk of \<open>b.vmdk\<close>.
\<close>

theorem AttachDisk_reports_other_disk_counterexample:
  "AttachDisk scripted (createDiskSpecFromSpec scripted) ''[datastore1] vols/a.vmdk'' []
     ''pvscsi''
     \<lparr>world = [Devices [attachedController ''pvscsi'' 1000],
               DiskUuid ''60 00 C2 98 5a 7b 3c 4d-9e 8f 0a 1b 2c 3d 4e 5f'',
               Devices [attachedController ''pvscsi'' 1000], TaskStarted 7, Done,
               Devices [attachedController ''pvscsi'' 1000,
                        attachedDisk ''[datastore1] vols/a.vmdk''
                          ''6000C298-5a7b-3c4d-9e8f-0a1b2c3d4e5f'',
                        attachedDisk ''[datastore1] vols/b.vmdk''
                          ''6000C29b-0000-1111-2222-333344445555'']],
      trace = []\<rparr> =
     (Inr (DeviceNameAndDiskUUID ''VirtualDisk [datastore1] vols/b.vmdk''
             ''6000C29b000011112222333344445555''),
      \<lparr>world = [],
       trace = [CallDevice, CallQueryVirtualDiskUuid ''[datastore1] vols/a.vmdk'', CallDevice,
                CallReconfigure
                  \<lparr>DeviceChange =
                     [\<lparr>Device =
                         \<lparr>TypeName = ''VirtualDisk'', Key = - 1, ControllerKey = 1000,
                          Backing = VirtualDiskFlatVer2BackingInfo ''[datastore1] vols/a.vmdk'' [],
                          SCSI = None\<rparr>,
                       Operation = VirtualDeviceConfigSpecOperationAdd, Profile = []\<rparr>]\<rparr>,
                CallWait 7, CallDevice]\<rparr>)"
  by (simp add: run)

section \<open>Properties of the disk managers\<close>

lemma getDiskManager_Create:
  "VolumeOptions disk = Some volumeOptions \<Longrightarrow>
   getDiskManager disk VirtualDiskCreateOperation =
     Inr (Some (if StoragePolicyName volumeOptions \<noteq> [] \<or>
                   VSANStorageProfileData volumeOptions \<noteq> [] \<or>
                   StoragePolicyID volumeOptions \<noteq> []
                then vmDiskManager (DiskPath disk) (VolumeOptions disk) (VMOptions disk)
                else virtualDiskManager (DiskPath disk) (VolumeOptions disk)))"
  by (simp add: getDiskManager_def VirtualDiskDeleteOperation_def VirtualDiskCreateOperation_def)

lemma VirtualDisk_Create_dispatch:
  assumes "VolumeOptions disk = Some given"
    and "volumeOptions =
      (if DiskFormat given = [] then given\<lparr>DiskFormat := ThinDiskType\<rparr> else given)"
    and "VerifyVolumeOptions volumeOptions"
    and "\<not> (StoragePolicyID volumeOptions \<noteq> [] \<and> StoragePolicyName volumeOptions \<noteq> [])"
  shows "VirtualDisk_Create VerifyVolumeOptions ThinDiskType providerCreate disk =
     Inr (providerCreate
       (if StoragePolicyName volumeOptions \<noteq> [] \<or> VSANStorageProfileData volumeOptions \<noteq> [] \<or>
           StoragePolicyID volumeOptions \<noteq> []
        then vmDiskManager (DiskPath disk) (Some volumeOptions) (VMOptions disk)
        else virtualDiskManager (DiskPath disk) (Some volumeOptions)))"
proof -
  have g: "getDiskManager (disk\<lparr>VolumeOptions := Some volumeOptions\<rparr>) VirtualDiskCreateOperation =
     Inr (Some (if StoragePolicyName volumeOptions \<noteq> [] \<or>
                   VSANStorageProfileData volumeOptions \<noteq> [] \<or>
                   StoragePolicyID volumeOptions \<noteq> []
                then vmDiskManager (DiskPath disk) (Some volumeOptions) (VMOptions disk)
                else virtualDiskManager (DiskPath disk) (Some volumeOptions)))"
    using getDiskManager_Create [of "disk\<lparr>VolumeOptions := Some volumeOptions\<rparr>" volumeOptions]
    by simp
  show ?thesis
    using assms(1,3,4) g unfolding assms(2) VirtualDisk_Create_def Let_def
    by (simp split: if_splits)
qed

text \<open>
  Claim C7. For the operation \<open>Delete\<close>, \<open>getDiskManager\<close> returns the plain virtual-disk
  manager whatever the volume options are, and \<open>VirtualDisk.Delete\<close> calls that manager's
  method. For the operation \<open>Create\<close> and a disk with volume options, \<open>getDiskManager\<close>
  returns the policy-aware VM-disk manager if and only if at least one of the
  storage-policy name, the VSAN storage-profile data and the storage-policy ID is not
  empty, and the plain manager otherwise; \<open>VirtualDisk.Create\<close>, once its own checks have
  passed, calls the method of the manager so chosen.
\<close>

theorem getDiskManager_dispatch:
  "getDiskManager disk VirtualDiskDeleteOperation =
     Inr (Some (virtualDiskManager (DiskPath disk) (VolumeOptions disk))) \<and>
   VirtualDisk_Delete providerDelete disk =
     Inr (providerDelete (virtualDiskManager (DiskPath disk) (VolumeOptions disk))) \<and>
   (\<forall>volumeOptions. VolumeOptions disk = Some volumeOptions \<longrightarrow>
      (\<exists>provider. getDiskManager disk VirtualDiskCreateOperation = Inr (Some provider) \<and>
         (policyAware provider \<longleftrightarrow>
            StoragePolicyName volumeOptions \<noteq> [] \<or> VSANStorageProfileData volumeOptions \<noteq> [] \<or>
            StoragePolicyID volumeOptions \<noteq> []) \<and>
         provider =
           (if StoragePolicyName volumeOptions \<noteq> [] \<or> VSANStorageProfileData volumeOptions \<noteq> [] \<or>
               StoragePolicyID volumeOptions \<noteq> []
            then vmDiskManager (DiskPath disk) (VolumeOptions disk) (VMOptions disk)
            else virtualDiskManager (DiskPath disk) (VolumeOptions disk)))) \<and>
   (\<forall>given volumeOptions.
      VolumeOptions disk = Some given \<and>
      volumeOptions =
        (if DiskFormat given = [] then given\<lparr>DiskFormat := ThinDiskType\<rparr> else given) \<and>
      VerifyVolumeOptions volumeOptions \<and>
      \<not> (StoragePolicyID volumeOptions \<noteq> [] \<and> StoragePolicyName volumeOptions \<noteq> []) \<longrightarrow>
      VirtualDisk_Create VerifyVolumeOptions ThinDiskType providerCreate disk =
        Inr (providerCreate
          (if StoragePolicyName volumeOptions \<noteq> [] \<or> VSANStorageProfileData volumeOptions \<noteq> [] \<or>
              StoragePolicyID volumeOptions \<noteq> []
           then vmDiskManager (DiskPath disk) (Some volumeOptions) (VMOptions disk)
           else virtualDiskManager (DiskPath disk) (Some volumeOptions))))"
proof (intro conjI allI impI)
  show "getDiskManager disk VirtualDiskDeleteOperation =
     Inr (Some (virtualDiskManager (DiskPath disk) (VolumeOptions disk)))"
    by (simp add: getDiskManager_def)
  show "VirtualDisk_Delete providerDelete disk =
     Inr (providerDelete (virtualDiskManager (DiskPath disk) (VolumeOptions disk)))"
    by (simp add: VirtualDisk_Delete_def getDiskManager_def)
next
  fix volumeOptions
  assume "VolumeOptions disk = Some volumeOptions"
  then show "\<exists>provider. getDiskManager disk VirtualDiskCreateOperation = Inr (Some provider) \<and>
         (policyAware provider \<longleftrightarrow>
            StoragePolicyName volumeOptions \<noteq> [] \<or> VSANStorageProfileData volumeOptions \<noteq> [] \<or>
            StoragePolicyID volumeOptions \<noteq> []) \<and>
         provider =
           (if StoragePolicyName volumeOptions \<noteq> [] \<or> VSANStorageProfileData volumeOptions \<noteq> [] \<or>
               StoragePolicyID volumeOptions \<noteq> []
            then vmDiskManager (DiskPath disk) (VolumeOptions disk) (VMOptions disk)
            else virtualDiskManager (DiskPath disk) (VolumeOptions disk))"
    by (simp add: getDiskManager_Create)
next
  fix given volumeOptions
  assume "VolumeOptions disk = Some given \<and>
      volumeOptions =
        (if DiskFormat given = [] then given\<lparr>DiskFormat := ThinDiskType\<rparr> else given) \<and>
      VerifyVolumeOptions volumeOptions \<and>
      \<not> (StoragePolicyID volumeOptions \<noteq> [] \<and> StoragePolicyName volumeOptions \<noteq> [])"
  then show "VirtualDisk_Create VerifyVolumeOptions ThinDiskType providerCreate disk =
        Inr (providerCreate
          (if StoragePolicyName volumeOptions \<noteq> [] \<or> VSANStorageProfileData volumeOptions \<noteq> [] \<or>
              StoragePolicyID volumeOptions \<noteq> []
           then vmDiskManager (DiskPath disk) (Some volumeOptions) (VMOptions disk)
           else virtualDiskManager (DiskPath disk) (Some volumeOptions)))"
    using VirtualDisk_Create_dispatch
      [of disk given volumeOptions ThinDiskType VerifyVolumeOptions providerCreate]
    by blast
qed

text \<open>
  The witness: one disk with a storage-policy name, one whose three policy fields are
  empty. The provider's method is the identity, so that the result shows the provider.
\<close>

theorem getDiskManager_dispatch_witness:
  "getDiskManager
     \<lparr>DiskPath = ''[datastore1] vols/a.vmdk'',
      VolumeOptions = Some \<lparr>DiskFormat = [], StoragePolicyName = ''gold'', StoragePolicyID = [],
                            VSANStorageProfileData = [], SCSIControllerType = ''pvscsi''\<rparr>,
      VMOptions = None\<rparr> VirtualDiskCreateOperation =
     Inr (Some (vmDiskManager ''[datastore1] vols/a.vmdk''
       (Some \<lparr>DiskFormat = [], StoragePolicyName = ''gold'', StoragePolicyID = [],
              VSANStorageProfileData = [], SCSIControllerType = ''pvscsi''\<rparr>) None)) \<and>
   VirtualDisk_Create (\<lambda>volumeOptions. True) ''thin'' (\<lambda>provider. provider)
     \<lparr>DiskPath = ''[datastore1] vols/a.vmdk'',
      VolumeOptions = Some \<lparr>DiskFormat = [], StoragePolicyName = ''gold'', StoragePolicyID = [],
                            VSANStorageProfileData = [], SCSIControllerType = ''pvscsi''\<rparr>,
      VMOptions = None\<rparr> =
     Inr (vmDiskManager ''[datastore1] vols/a.vmdk''
       (Some \<lparr>DiskFormat = ''thin'', StoragePolicyName = ''gold'', StoragePolicyID = [],
              VSANStorageProfileData = [], SCSIControllerType = ''pvscsi''\<rparr>) None) \<and>
   getDiskManager
     \<lparr>DiskPath = ''[datastore1] vols/b.vmdk'',
      VolumeOptions = Some \<lparr>DiskFormat = ''zeroedThick'', StoragePolicyName = [],
                            StoragePolicyID = [], VSANStorageProfileData = [],
                            SCSIControllerType = []\<rparr>,
      VMOptions = None\<rparr> VirtualDiskCreateOperation =
     Inr (Some (virtualDiskManager ''[datastore1] vols/b.vmdk''
       (Some \<lparr>DiskFormat = ''zeroedThick'', StoragePolicyName = [], StoragePolicyID = [],
              VSANStorageProfileData = [], SCSIControllerType = []\<rparr>))) \<and>
   VirtualDisk_Create (\<lambda>volumeOptions. True) ''thin'' (\<lambda>provider. provider)
     \<lparr>DiskPath = ''[datastore1] vols/b.vmdk'',
      VolumeOptions = Some \<lparr>DiskFormat = ''zeroedThick'', StoragePolicyName = [],
                            StoragePolicyID = [], VSANStorageProfileData = [],
                            SCSIControllerType = []\<rparr>,
      VMOptions = None\<rparr> =
     Inr (virtualDiskManager ''[datastore1] vols/b.vmdk''
       (Some \<lparr>DiskFormat = ''zeroedThick'', StoragePolicyName = [], StoragePolicyID = [],
              VSANStorageProfileData = [], SCSIControllerType = []\<rparr>))"
proof -
  let ?gold = "\<lparr>DiskFormat = [], StoragePolicyName = ''gold'', StoragePolicyID = [],
                 VSANStorageProfileData = [], SCSIControllerType = ''pvscsi''\<rparr>"
  let ?plain = "\<lparr>DiskFormat = ''zeroedThick'', StoragePolicyName = [], StoragePolicyID = [],
                  VSANStorageProfileData = [], SCSIControllerType = []\<rparr>"
  let ?a = "\<lparr>DiskPath = ''[datastore1] vols/a.vmdk'', VolumeOptions = Some ?gold,
              VMOptions = None\<rparr>"
  let ?b = "\<lparr>DiskPath = ''[datastore1] vols/b.vmdk'', VolumeOptions = Some ?plain,
              VMOptions = None\<rparr>"
  have a: "VolumeOptions ?a = Some ?gold" and b: "VolumeOptions ?b = Some ?plain"
    by simp_all
  show ?thesis
    using getDiskManager_dispatch
        [of ?a "\<lambda>provider. provider" "''thin''" "\<lambda>volumeOptions. True" "\<lambda>provider. provider"]
      getDiskManager_dispatch
        [of ?b "\<lambda>provider. provider" "''thin''" "\<lambda>volumeOptions. True" "\<lambda>provider. provider"]
      a b
    by simp
qed

end
